theory Spec2Isabelle
  imports Main "HOL-Library.Word" "HOL-Library.Sublist"
begin

section \<open>The geo-resolution component of zscan (pkg/stage/ipinfo.go)\<close>

text \<open>
  The Go file owns two GeoIP database readers, provisions their backing files on first
  use and answers point lookups.  Everything it does goes through the operating system,
  the network or the geoip2 library, so the embedding is explicit state passing: an
  immutable environment \<open>env\<close> answers the external calls, a mutable \<open>world\<close> holds
  the files on disk, the set of open reader handles and a trace of the external calls made
  so far, each with the error it returned.  A Go \<open>error\<close> is its message (a
  \<open>string\<close>); \<open>fmt.Errorf("p: %v", err)\<close> is \<open>p @ err\<close>.  The reader/writer lock
  \<open>mu\<close> is not modelled: the embedding is sequential.
\<close>

subsection \<open>Data\<close>

type_synonym path = string
type_synonym url = string
type_synonym bytes = "char list"
type_synonym error = string

text \<open>\<open>net.IP\<close> is a byte slice.\<close>

type_synonym ip = "8 word list"

text \<open>
  A Go \<open>map[string]string\<close>; \<open>None\<close> is the nil map, \<open>Some Map.empty\<close> the empty map.
\<close>

type_synonym names = "(string \<rightharpoonup> string) option"

text \<open>
  The fields of the geoip2 library's \<open>City\<close> and \<open>ASN\<close> results that \<open>GetIPInfo\<close>
  reads.  The library is not part of the repository; its nested structs are flattened,
  \<open>Continent.Names\<close> becoming \<open>Continent_Names\<close>.  Coordinates are IEEE-754 bit patterns:
  they are copied, never computed with.
\<close>

record Subdivision =
  Subdivision_Names :: names
  Subdivision_IsoCode :: string

record geoip2_City =
  Continent_Names :: names
  Continent_Code :: string
  Country_Names :: names
  Country_IsoCode :: string
  City_Names :: names
  Location_TimeZone :: string
  Location_Latitude :: "64 word"
  Location_Longitude :: "64 word"
  Location_AccuracyRadius :: "16 word"
  Postal_Code :: string
  Subdivisions :: "Subdivision list"

record geoip2_ASN =
  AutonomousSystemNumber :: "64 word"
  AutonomousSystemOrganization :: string

text \<open>The struct \<open>IPDetails\<close>; the field \<open>Domain\<close> is written \<open>Domain'\<close>.\<close>

record IPDetails =
  Continent :: string
  ContinentCode :: string
  Country :: string
  CountryCode :: string
  Region :: string
  RegionCode :: string
  City :: string
  PostalCode :: string
  Latitude :: "64 word"
  Longitude :: "64 word"
  TimeZone :: string
  ASN :: "64 word"
  ASNOrg :: string
  ISP :: string
  Domain' :: string
  NetworkType :: string
  IsAnonymous :: bool
  IsAnonymousVPN :: bool
  IsHosting :: bool
  IsProxy :: bool
  IsTorExitNode :: bool
  AccuracyRadius :: "16 word"

text \<open>
  A \<open>*geoip2.Reader\<close>: a handle number and the database contents it was opened over.
  A nil pointer is \<open>None\<close> in the fields of \<open>IPInfo\<close>.
\<close>

record Reader =
  rid :: nat
  rdata :: bytes

record IPInfo =
  cityReader :: "Reader option"
  asnReader :: "Reader option"
  dbDir :: string

text \<open>
  An \<open>*http.Response\<close>: the body is the chunks its reads deliver, ended by end of file
  (\<open>Body_err = None\<close>) or by a read error.
\<close>

record Response =
  StatusCode :: int
  Status :: string
  Body_chunks :: "bytes list"
  Body_err :: "error option"

subsection \<open>The environment and the world\<close>

text \<open>
  The external calls, with the error each one returns.  \<open>Stat_err\<close> is a failure of
  \<open>os.Stat\<close> other than "does not exist" (permission denied, not a directory); whether a
  path exists is answered from the files of the world.  \<open>mmdb_err\<close> is the failure of
  reading a file as a MaxMind database, \<open>dbtype_err\<close> the library's refusal of a database
  type it does not know.  The three \<open>Close\<close> calls can fail as well.
\<close>

record env =
  ParseIP :: "string \<Rightarrow> ip option"
  UserHomeDir :: "error + string"
  MkdirAll :: "path \<Rightarrow> error option"
  Stat_err :: "path \<Rightarrow> error option"
  http_Get :: "url \<Rightarrow> error + Response"
  Create_err :: "path \<Rightarrow> error option"
  Write_err :: "path \<Rightarrow> nat \<Rightarrow> error option"
  FileClose_err :: "path \<Rightarrow> error option"
  BodyClose_err :: "url \<Rightarrow> error option"
  mmdb_err :: "bytes \<Rightarrow> error option"
  dbtype_err :: "bytes \<Rightarrow> error option"
  ReaderClose_err :: "nat \<Rightarrow> error option"
  City_of :: "bytes \<Rightarrow> ip \<Rightarrow> error + geoip2_City"
  ASN_of :: "bytes \<Rightarrow> ip \<Rightarrow> error + geoip2_ASN"

datatype call =
  Call_UserHomeDir
  | Call_MkdirAll path
  | Call_Stat path
  | Call_Get url
  | Call_Create path
  | Call_Copy path
  | Call_FileClose path
  | Call_BodyClose url
  | Call_Open path
  | Call_ReaderClose nat
  | Call_City nat ip
  | Call_ASN nat ip

text \<open>An event is an external call and the error it returned, if any.\<close>

type_synonym event = "call \<times> error option"

record world =
  files :: "path \<rightharpoonup> bytes"
  open_readers :: "nat set"
  next_rid :: nat
  trace :: "event list"

definition log_event :: "event \<Rightarrow> world \<Rightarrow> world" where
  "log_event ev w = w\<lparr>trace := trace w @ [ev]\<rparr>"

text \<open>The events a run from \<open>w\<close> to \<open>w'\<close> has added.\<close>

definition new_events :: "world \<Rightarrow> world \<Rightarrow> event list" where
  "new_events w w' = drop (length (trace w)) (trace w')"

fun failures :: "event list \<Rightarrow> error list" where
  "failures [] = []"
| "failures ((c, None) # evs) = failures evs"
| "failures ((c, Some m) # evs) = m # failures evs"

fun fetches :: "event list \<Rightarrow> url list" where
  "fetches [] = []"
| "fetches ((Call_Get u, r) # evs) = u # fetches evs"
| "fetches (ev # evs) = fetches evs"

fun closes :: "event list \<Rightarrow> nat list" where
  "closes [] = []"
| "closes ((Call_ReaderClose h, r) # evs) = h # closes evs"
| "closes (ev # evs) = closes evs"

fun queries :: "event list \<Rightarrow> nat list" where
  "queries [] = []"
| "queries ((Call_City h a, r) # evs) = h # queries evs"
| "queries ((Call_ASN h a, r) # evs) = h # queries evs"
| "queries (ev # evs) = queries evs"

text \<open>
  The calls whose error the code does not return: \<open>os.Stat\<close>, of which it only asks
  whether the error is "does not exist", and the three \<open>Close\<close> calls, whose results
  it discards.  The checked failures of a run are those of all other calls.
\<close>

fun dropped :: "call \<Rightarrow> bool" where
  "dropped (Call_Stat p) = True"
| "dropped (Call_FileClose p) = True"
| "dropped (Call_BodyClose u) = True"
| "dropped (Call_ReaderClose h) = True"
| "dropped c = False"

definition checked_failures :: "event list \<Rightarrow> error list" where
  "checked_failures evs = failures (filter (\<lambda>ev. \<not> dropped (fst ev)) evs)"

subsection \<open>The library calls\<close>

text \<open>
  \<open>strings.Split(p, "/")\<close> and \<open>strings.Join(xs, "/")\<close>.
\<close>

fun split_slash :: "string \<Rightarrow> string list" where
  "split_slash [] = [[]]"
| "split_slash (c # cs) =
     (if c = CHR ''/'' then [] # split_slash cs
      else (case split_slash cs of [] \<Rightarrow> [[c]] | x # xs \<Rightarrow> (c # x) # xs))"

fun join_slash :: "string list \<Rightarrow> string" where
  "join_slash [] = []"
| "join_slash [x] = x"
| "join_slash (x # y # ys) = x @ ''/'' @ join_slash (y # ys)"

text \<open>
  \<open>filepath.Clean\<close> on Unix, element by element: empty elements and \<open>.\<close> are dropped,
  \<open>..\<close> removes the element before it (at the root it is dropped, at the start of a
  relative path it is kept), and the empty result is \<open>.\<close>.  The stack holds the elements
  kept so far, the last one first.
\<close>

definition clean_step :: "bool \<Rightarrow> string list \<Rightarrow> string \<Rightarrow> string list" where
  "clean_step rooted st c =
     (if c = [] \<or> c = ''.'' then st
      else if c = ''..''
      then (case st of
              [] \<Rightarrow> if rooted then [] else [''..'']
            | t # ts \<Rightarrow> if t = ''..'' then ''..'' # st else ts)
      else c # st)"

definition filepath_Clean :: "string \<Rightarrow> string" where
  "filepath_Clean p =
     (if p = [] then ''.''
      else
        (let rooted = (hd p = CHR ''/'');
             st = foldl (clean_step rooted) [] (split_slash p);
             out = (if rooted then ''/'' else []) @ join_slash (rev st)
         in if out = [] then ''.'' else out))"

text \<open>
  \<open>filepath.Join\<close>: the elements from the first non-empty one on, joined by slashes and
  cleaned; the empty string when every element is empty.
\<close>

definition filepath_Join :: "string list \<Rightarrow> string" where
  "filepath_Join elem =
     (case dropWhile (\<lambda>x. x = []) elem of
        [] \<Rightarrow> []
      | x # xs \<Rightarrow> filepath_Clean (join_slash (x # xs)))"

text \<open>
  \<open>os.Stat\<close> fails with \<open>Stat_err\<close> when the environment says so, with "does not
  exist" when the path names no file, and succeeds otherwise.  \<open>os.IsNotExist\<close> tells the
  second failure from the first.
\<close>

datatype stat_error = ErrNotExist | ErrOther error

definition os_Stat :: "env \<Rightarrow> path \<Rightarrow> world \<Rightarrow> stat_error option \<times> world" where
  "os_Stat e p w =
     (case Stat_err e p of
        Some err \<Rightarrow> (Some (ErrOther err), log_event (Call_Stat p, Some err) w)
      | None \<Rightarrow>
          if files w p = None
          then (Some ErrNotExist,
                log_event (Call_Stat p, Some (''stat '' @ p @ '': no such file or directory'')) w)
          else (None, log_event (Call_Stat p, None) w))"

definition os_IsNotExist :: "stat_error option \<Rightarrow> bool" where
  "os_IsNotExist err = (err = Some ErrNotExist)"

text \<open>
  \<open>io.Copy(out, resp.Body)\<close>: every chunk read is appended to the file; the copy stops
  at the first write error and otherwise returns the error that ended the reads, if any.
\<close>

fun io_Copy ::
  "env \<Rightarrow> path \<Rightarrow> bytes list \<Rightarrow> error option \<Rightarrow> (path \<rightharpoonup> bytes) \<Rightarrow> error option \<times> (path \<rightharpoonup> bytes)"
where
  "io_Copy e p [] rerr fs = (rerr, fs)"
| "io_Copy e p (c # cs) rerr fs =
     (let old = (case fs p of None \<Rightarrow> [] | Some b \<Rightarrow> b) in
      case Write_err e p (length old) of
        Some err \<Rightarrow> (Some err, fs)
      | None \<Rightarrow> io_Copy e p cs rerr (fs(p \<mapsto> old @ c)))"

text \<open>
  \<open>geoip2.Open\<close> returns a reader and an error.  When the file is absent or is not a
  MaxMind database there is no reader; otherwise the database is open, and when the library
  does not know its type the open reader comes back together with an error.  A nil reader
  never comes with a nil error.
\<close>

datatype open_result = OpenFailed error | Opened Reader | OpenedWithError Reader error

definition geoip2_Open :: "env \<Rightarrow> path \<Rightarrow> world \<Rightarrow> open_result \<times> world" where
  "geoip2_Open e p w =
     (case files w p of
        None \<Rightarrow>
          (let err = ''open '' @ p @ '': no such file or directory''
           in (OpenFailed err, log_event (Call_Open p, Some err) w))
      | Some bs \<Rightarrow>
          (case mmdb_err e bs of
             Some err \<Rightarrow> (OpenFailed err, log_event (Call_Open p, Some err) w)
           | None \<Rightarrow>
               (let r = \<lparr>rid = next_rid w, rdata = bs\<rparr>;
                    w1 = w\<lparr>open_readers := insert (next_rid w) (open_readers w),
                           next_rid := Suc (next_rid w)\<rparr>
                in case dbtype_err e bs of
                     Some err \<Rightarrow> (OpenedWithError r err, log_event (Call_Open p, Some err) w1)
                   | None \<Rightarrow> (Opened r, log_event (Call_Open p, None) w1))))"

text \<open>
  \<open>Reader.Close\<close> returns an error; the reader is closed whether or not it does.
\<close>

definition Reader_Close :: "env \<Rightarrow> Reader \<Rightarrow> world \<Rightarrow> error option \<times> world" where
  "Reader_Close e r w =
     (ReaderClose_err e (rid r),
      log_event (Call_ReaderClose (rid r), ReaderClose_err e (rid r))
        (w\<lparr>open_readers := open_readers w - {rid r}\<rparr>))"

text \<open>
  A call either returns a Go error or does not return normally: \<open>Fault\<close> is the nil
  pointer dereference of a method called on a nil reader, and the use of a reader that
  has been closed, which the library leaves undefined.
\<close>

datatype failure = Error error | Fault

definition Reader_City ::
  "env \<Rightarrow> Reader option \<Rightarrow> ip \<Rightarrow> world \<Rightarrow> (failure + geoip2_City) \<times> world" where
  "Reader_City e ro a w =
     (case ro of
        None \<Rightarrow> (Inl Fault, w)
      | Some r \<Rightarrow>
          if rid r \<notin> open_readers w then (Inl Fault, w)
          else (case City_of e (rdata r) a of
                  Inl err \<Rightarrow> (Inl (Error err), log_event (Call_City (rid r) a, Some err) w)
                | Inr c \<Rightarrow> (Inr c, log_event (Call_City (rid r) a, None) w)))"

definition Reader_ASN ::
  "env \<Rightarrow> Reader option \<Rightarrow> ip \<Rightarrow> world \<Rightarrow> (failure + geoip2_ASN) \<times> world" where
  "Reader_ASN e ro a w =
     (case ro of
        None \<Rightarrow> (Inl Fault, w)
      | Some r \<Rightarrow>
          if rid r \<notin> open_readers w then (Inl Fault, w)
          else (case ASN_of e (rdata r) a of
                  Inl err \<Rightarrow> (Inl (Error err), log_event (Call_ASN (rid r) a, Some err) w)
                | Inr c \<Rightarrow> (Inr c, log_event (Call_ASN (rid r) a, None) w)))"

subsection \<open>The functions of ipinfo.go\<close>

definition cityDBURL :: url where
  "cityDBURL = ''https://raw.githubusercontent.com/zcyberseclab/zscan/main/data/GeoLite2-City.mmdb''"

definition asnDBURL :: url where
  "asnDBURL = ''https://raw.githubusercontent.com/zcyberseclab/zscan/main/data/GeoLite2-ASN.mmdb''"

definition getLocalizedName :: "names \<Rightarrow> string \<Rightarrow> string" where
  "getLocalizedName names lang =
     (case names of
        None \<Rightarrow> []
      | Some m \<Rightarrow>
          (case m lang of
             Some name \<Rightarrow> name
           | None \<Rightarrow> (case m ''en'' of Some name \<Rightarrow> name | None \<Rightarrow> [])))"

text \<open>
  \<open>downloadFile\<close>.  The deferred calls run on return, last deferred first: the file is
  closed, then the body.  What the two \<open>Close\<close> calls return is discarded.
\<close>

definition downloadFile :: "env \<Rightarrow> url \<Rightarrow> path \<Rightarrow> world \<Rightarrow> error option \<times> world" where
  "downloadFile e u fp w =
     (case http_Get e u of
        Inl err \<Rightarrow> (Some err, log_event (Call_Get u, Some err) w)
      | Inr resp \<Rightarrow>
          (let w1 = log_event (Call_Get u, None) w in
           if StatusCode resp \<noteq> 200
           then (Some (''bad status: '' @ Status resp),
                 log_event (Call_BodyClose u, BodyClose_err e u) w1)
           else
             (case Create_err e fp of
                Some err \<Rightarrow>
                  (Some err,
                   log_event (Call_BodyClose u, BodyClose_err e u)
                     (log_event (Call_Create fp, Some err) w1))
              | None \<Rightarrow>
                  (let w2 = log_event (Call_Create fp, None) (w1\<lparr>files := (files w1)(fp \<mapsto> [])\<rparr>);
                       cp = io_Copy e fp (Body_chunks resp) (Body_err resp) (files w2);
                       w3 = log_event (Call_Copy fp, fst cp) (w2\<lparr>files := snd cp\<rparr>)
                   in (fst cp,
                       log_event (Call_BodyClose u, BodyClose_err e u)
                         (log_event (Call_FileClose fp, FileClose_err e fp) w3))))))"

text \<open>
  \<open>ensureDatabases\<close>.  Each reader field is assigned what \<open>geoip2.Open\<close> returned
  before the error is looked at, so a reader returned together with an error stays in its
  field, open.  What \<open>i.cityReader.Close()\<close> returns is discarded.
\<close>

definition ensureDatabases :: "env \<Rightarrow> IPInfo \<Rightarrow> world \<Rightarrow> error option \<times> IPInfo \<times> world" where
  "ensureDatabases e i w =
     (let cityDB = filepath_Join [dbDir i, ''GeoLite2-City.mmdb''];
          asnDB = filepath_Join [dbDir i, ''GeoLite2-ASN.mmdb''];
          s1 = os_Stat e cityDB w;
          d1 = (if os_IsNotExist (fst s1) then downloadFile e cityDBURL cityDB (snd s1)
                else (None, snd s1))
      in case fst d1 of
           Some err \<Rightarrow> (Some (''failed to download city database: '' @ err), i, snd d1)
         | None \<Rightarrow>
      (let s2 = os_Stat e asnDB (snd d1);
           d2 = (if os_IsNotExist (fst s2) then downloadFile e asnDBURL asnDB (snd s2)
                 else (None, snd s2))
       in case fst d2 of
            Some err \<Rightarrow> (Some (''failed to download ASN database: '' @ err), i, snd d2)
          | None \<Rightarrow>
      (case geoip2_Open e cityDB (snd d2) of
         (OpenFailed err, w3) \<Rightarrow>
           (Some (''failed to open city database: '' @ err), i\<lparr>cityReader := None\<rparr>, w3)
       | (OpenedWithError rc err, w3) \<Rightarrow>
           (Some (''failed to open city database: '' @ err), i\<lparr>cityReader := Some rc\<rparr>, w3)
       | (Opened rc, w3) \<Rightarrow>
      (case geoip2_Open e asnDB w3 of
         (OpenFailed err, w4) \<Rightarrow>
           (Some (''failed to open ASN database: '' @ err),
            i\<lparr>cityReader := Some rc, asnReader := None\<rparr>,
            snd (Reader_Close e rc w4))
       | (OpenedWithError ra err, w4) \<Rightarrow>
           (Some (''failed to open ASN database: '' @ err),
            i\<lparr>cityReader := Some rc, asnReader := Some ra\<rparr>,
            snd (Reader_Close e rc w4))
       | (Opened ra, w4) \<Rightarrow>
           (None, i\<lparr>cityReader := Some rc, asnReader := Some ra\<rparr>, w4)))))"

definition NewIPInfo :: "env \<Rightarrow> string \<Rightarrow> world \<Rightarrow> (error + IPInfo) \<times> world" where
  "NewIPInfo e dir w =
     (let h = (if dir = []
               then (case UserHomeDir e of
                       Inl err \<Rightarrow>
                         (Inl (''failed to get user home directory: '' @ err),
                          log_event (Call_UserHomeDir, Some err) w)
                     | Inr userHome \<Rightarrow>
                         (Inr (filepath_Join [userHome, ''.zscan'', ''geoip'']),
                          log_event (Call_UserHomeDir, None) w))
               else (Inr dir, w))
      in case h of
           (Inl err, w1) \<Rightarrow> (Inl err, w1)
         | (Inr dir1, w1) \<Rightarrow>
      (case MkdirAll e dir1 of
         Some err \<Rightarrow>
           (Inl (''failed to create database directory: '' @ err),
            log_event (Call_MkdirAll dir1, Some err) w1)
       | None \<Rightarrow>
      (let i = \<lparr>cityReader = None, asnReader = None, dbDir = dir1\<rparr>
       in case ensureDatabases e i (log_event (Call_MkdirAll dir1, None) w1) of
            (Some err, i', w2) \<Rightarrow> (Inl err, w2)
          | (None, i', w2) \<Rightarrow> (Inr i', w2))))"

text \<open>
  \<open>GetIPInfo\<close>.  The fields the struct literal leaves out hold Go's zero values; the
  conversion \<open>uint16(...)\<close> is \<open>ucast\<close>.
\<close>

definition GetIPInfo :: "env \<Rightarrow> IPInfo \<Rightarrow> string \<Rightarrow> world \<Rightarrow> (failure + IPDetails) \<times> world" where
  "GetIPInfo e i ipstr w =
     (case ParseIP e ipstr of
        None \<Rightarrow> (Inl (Error ''invalid IP address''), w)
      | Some parsedIP \<Rightarrow>
      (case Reader_City e (cityReader i) parsedIP w of
         (Inl Fault, w1) \<Rightarrow> (Inl Fault, w1)
       | (Inl (Error err), w1) \<Rightarrow>
           (Inl (Error (''failed to query city information: '' @ err)), w1)
       | (Inr city, w1) \<Rightarrow>
      (case Reader_ASN e (asnReader i) parsedIP w1 of
         (Inl Fault, w2) \<Rightarrow> (Inl Fault, w2)
       | (Inl (Error err), w2) \<Rightarrow>
           (Inl (Error (''failed to query ASN information: '' @ err)), w2)
       | (Inr asn, w2) \<Rightarrow>
      (let details =
             \<lparr>Continent = getLocalizedName (Continent_Names city) ''en'',
              ContinentCode = Continent_Code city,
              Country = getLocalizedName (Country_Names city) ''en'',
              CountryCode = Country_IsoCode city,
              Region = [],
              RegionCode = [],
              City = getLocalizedName (City_Names city) ''en'',
              PostalCode = Postal_Code city,
              Latitude = Location_Latitude city,
              Longitude = Location_Longitude city,
              TimeZone = Location_TimeZone city,
              ASN = AutonomousSystemNumber asn,
              ASNOrg = AutonomousSystemOrganization asn,
              ISP = [],
              Domain' = [],
              NetworkType = [],
              IsAnonymous = False,
              IsAnonymousVPN = False,
              IsHosting = False,
              IsProxy = False,
              IsTorExitNode = False,
              AccuracyRadius = ucast (Location_AccuracyRadius city)\<rparr>
       in (Inr (case Subdivisions city of
                  [] \<Rightarrow> details
                | s # _ \<Rightarrow>
                    details\<lparr>Region := getLocalizedName (Subdivision_Names s) ''en'',
                            RegionCode := Subdivision_IsoCode s\<rparr>),
           w2)))))"

text \<open>\<open>Close\<close>.  What the two \<open>Reader.Close\<close> calls return is discarded.\<close>

definition Close :: "env \<Rightarrow> IPInfo \<Rightarrow> world \<Rightarrow> world" where
  "Close e i w =
     (let w1 = (case cityReader i of None \<Rightarrow> w | Some r \<Rightarrow> snd (Reader_Close e r w))
      in case asnReader i of None \<Rightarrow> w1 | Some r \<Rightarrow> snd (Reader_Close e r w1))"

subsection \<open>Auxiliary definitions\<close>

abbreviation cityDB_path :: "string \<Rightarrow> path" where
  "cityDB_path d \<equiv> filepath_Join [d, ''GeoLite2-City.mmdb'']"

abbreviation asnDB_path :: "string \<Rightarrow> path" where
  "asnDB_path d \<equiv> filepath_Join [d, ''GeoLite2-ASN.mmdb'']"

text \<open>
  The two phases of \<open>ensureDatabases\<close>, named for the proofs: one of its two
  "download if it does not exist" blocks, and its "open databases" tail.  Lemma
  \<open>ensureDatabases_phases\<close> shows that \<open>ensureDatabases\<close> is their sequence.
\<close>

definition fetch_if_absent :: "env \<Rightarrow> url \<Rightarrow> path \<Rightarrow> world \<Rightarrow> error option \<times> world" where
  "fetch_if_absent e u p w =
     (let s = os_Stat e p w
      in if os_IsNotExist (fst s) then downloadFile e u p (snd s) else (None, snd s))"

definition open_databases :: "env \<Rightarrow> IPInfo \<Rightarrow> world \<Rightarrow> error option \<times> IPInfo \<times> world" where
  "open_databases e i w =
     (case geoip2_Open e (cityDB_path (dbDir i)) w of
         (OpenFailed err, w3) \<Rightarrow>
           (Some (''failed to open city database: '' @ err), i\<lparr>cityReader := None\<rparr>, w3)
       | (OpenedWithError rc err, w3) \<Rightarrow>
           (Some (''failed to open city database: '' @ err), i\<lparr>cityReader := Some rc\<rparr>, w3)
       | (Opened rc, w3) \<Rightarrow>
      (case geoip2_Open e (asnDB_path (dbDir i)) w3 of
         (OpenFailed err, w4) \<Rightarrow>
           (Some (''failed to open ASN database: '' @ err),
            i\<lparr>cityReader := Some rc, asnReader := None\<rparr>,
            snd (Reader_Close e rc w4))
       | (OpenedWithError ra err, w4) \<Rightarrow>
           (Some (''failed to open ASN database: '' @ err),
            i\<lparr>cityReader := Some rc, asnReader := Some ra\<rparr>,
            snd (Reader_Close e rc w4))
       | (Opened ra, w4) \<Rightarrow>
           (None, i\<lparr>cityReader := Some rc, asnReader := Some ra\<rparr>, w4)))"


subsection \<open>Causes of errors\<close>

text \<open>
  An error carries its cause when exactly one checked call of the run failed and the
  error's message ends with the message of that call.  The error for a bad HTTP status has
  no failed call behind it (the GET succeeded): it reports the status line of a response
  that was fetched.
\<close>

definition carries_cause :: "error \<Rightarrow> event list \<Rightarrow> bool" where
  "carries_cause err evs = (\<exists>m. checked_failures evs = [m] \<and> suffix m err)"

definition reports_status :: "env \<Rightarrow> error \<Rightarrow> event list \<Rightarrow> bool" where
  "reports_status e err evs =
     (checked_failures evs = [] \<and>
      (\<exists>u \<in> set (fetches evs).
         case http_Get e u of
           Inl x \<Rightarrow> False
         | Inr resp \<Rightarrow> StatusCode resp \<noteq> 200 \<and> suffix (''bad status: '' @ Status resp) err))"

subsection \<open>A concrete environment\<close>

text \<open>
  An environment in which every external call succeeds: the server answers 200 with a
  two-chunk body that is a database of a known type, and the databases know one address.
\<close>

definition ex_addr :: ip where
  "ex_addr = [0, 0, 0, 0, 0, 0, 0, 0, 0, 0, 255, 255, 192, 0, 2, 1]"

definition ex_city :: geoip2_City where
  "ex_city =
     \<lparr>Continent_Names = Some [''en'' \<mapsto> ''Europe'', ''de'' \<mapsto> ''Europa''],
      Continent_Code = ''EU'',
      Country_Names = Some [''en'' \<mapsto> ''Germany'', ''de'' \<mapsto> ''Deutschland''],
      Country_IsoCode = ''DE'',
      City_Names = Some [''en'' \<mapsto> ''Berlin''],
      Location_TimeZone = ''Europe/Berlin'',
      Location_Latitude = 0x404A428F5C28F5C3,
      Location_Longitude = 0x402ACF5C28F5C28F,
      Location_AccuracyRadius = 20,
      Postal_Code = ''10115'',
      Subdivisions =
        [\<lparr>Subdivision_Names = Some [''en'' \<mapsto> ''Land Berlin''], Subdivision_IsoCode = ''BE''\<rparr>,
         \<lparr>Subdivision_Names = Some [''en'' \<mapsto> ''Mitte''], Subdivision_IsoCode = ''MI''\<rparr>]\<rparr>"

definition ex_asn :: geoip2_ASN where
  "ex_asn =
     \<lparr>AutonomousSystemNumber = 3320, AutonomousSystemOrganization = ''Deutsche Telekom AG''\<rparr>"

definition ex_response :: Response where
  "ex_response =
     \<lparr>StatusCode = 200, Status = ''200 OK'', Body_chunks = [''MMDB'', ''data''],
      Body_err = None\<rparr>"

definition ex_env :: env where
  "ex_env =
     \<lparr>ParseIP = (\<lambda>s. if s = ''192.0.2.1'' then Some ex_addr else None),
      UserHomeDir = Inr ''/home/zscan'',
      MkdirAll = (\<lambda>d. None),
      Stat_err = (\<lambda>p. None),
      http_Get = (\<lambda>u. Inr ex_response),
      Create_err = (\<lambda>p. None),
      Write_err = (\<lambda>p n. None),
      FileClose_err = (\<lambda>p. None),
      BodyClose_err = (\<lambda>u. None),
      mmdb_err = (\<lambda>bs. if take 4 bs = ''MMDB'' then None else Some ''invalid MaxMind DB file''),
      dbtype_err =
        (\<lambda>bs. if bs = ''MMDBdata'' then None
              else Some ''geoip2: reader does not support the database type''),
      ReaderClose_err = (\<lambda>h. None),
      City_of = (\<lambda>bs a. if a = ex_addr then Inr ex_city else Inl ''address not found''),
      ASN_of = (\<lambda>bs a. if a = ex_addr then Inr ex_asn else Inl ''address not found'')\<rparr>"

text \<open>An empty disk with no reader open, and a resolver constructed over a provisioned disk.\<close>

definition ex_world :: world where
  "ex_world = \<lparr>files = Map.empty, open_readers = {}, next_rid = 0, trace = []\<rparr>"

definition ex_info :: IPInfo where
  "ex_info =
     \<lparr>cityReader = Some \<lparr>rid = 0, rdata = ''MMDBdata''\<rparr>,
      asnReader = Some \<lparr>rid = 1, rdata = ''MMDBdata''\<rparr>,
      dbDir = ''/db''\<rparr>"

definition ex_world_open :: world where
  "ex_world_open =
     \<lparr>files = [''/db/GeoLite2-City.mmdb'' \<mapsto> ''MMDBdata'', ''/db/GeoLite2-ASN.mmdb'' \<mapsto> ''MMDBdata''],
      open_readers = {0, 1}, next_rid = 2, trace = []\<rparr>"

text \<open>What the lookup of the known address returns.\<close>

definition ex_details :: IPDetails where
  "ex_details =
     \<lparr>Continent = ''Europe'', ContinentCode = ''EU'', Country = ''Germany'', CountryCode = ''DE'',
      Region = ''Land Berlin'', RegionCode = ''BE'', City = ''Berlin'', PostalCode = ''10115'',
      Latitude = 0x404A428F5C28F5C3, Longitude = 0x402ACF5C28F5C28F,
      TimeZone = ''Europe/Berlin'', ASN = 3320, ASNOrg = ''Deutsche Telekom AG'',
      ISP = [], Domain' = [], NetworkType = [],
      IsAnonymous = False, IsAnonymousVPN = False, IsHosting = False, IsProxy = False,
      IsTorExitNode = False, AccuracyRadius = 20\<rparr>"

text \<open>
  The same environment with a city database that records no subdivision; a resolver whose
  readers were never opened; a second resolver over the same contents with other handles.
\<close>

definition ex_env_bare :: env where
  "ex_env_bare = ex_env\<lparr>City_of := (\<lambda>bs a. Inr (ex_city\<lparr>Subdivisions := []\<rparr>))\<rparr>"

definition ex_info_nil :: IPInfo where
  "ex_info_nil = \<lparr>cityReader = None, asnReader = None, dbDir = ''/db''\<rparr>"

definition ex_info_swapped :: IPInfo where
  "ex_info_swapped =
     \<lparr>cityReader = Some \<lparr>rid = 1, rdata = ''MMDBdata''\<rparr>,
      asnReader = Some \<lparr>rid = 0, rdata = ''MMDBdata''\<rparr>,
      dbDir = ''/db''\<rparr>"

text \<open>
  Servers that answer 203 (a 2xx status with a full body) and 404, and a network that is
  down.
\<close>

definition ex_response_203 :: Response where
  "ex_response_203 =
     ex_response\<lparr>StatusCode := 203, Status := ''203 Non-Authoritative Information''\<rparr>"

definition ex_env_203 :: env where
  "ex_env_203 = ex_env\<lparr>http_Get := (\<lambda>u. Inr ex_response_203)\<rparr>"

definition ex_response_404 :: Response where
  "ex_response_404 =
     \<lparr>StatusCode = 404, Status = ''404 Not Found'', Body_chunks = [''404: Not Found''],
      Body_err = None\<rparr>"

definition ex_env_404 :: env where
  "ex_env_404 = ex_env\<lparr>http_Get := (\<lambda>u. Inr ex_response_404)\<rparr>"

definition ex_env_offline :: env where
  "ex_env_offline = ex_env\<lparr>http_Get := (\<lambda>u. Inl ''dial tcp: no such host'')\<rparr>"

text \<open>
  Disks on which one of the two files is missing, a disk whose ASN file is not a database,
  and an ASN database that knows no address.
\<close>

definition ex_world_asn_only :: world where
  "ex_world_asn_only =
     \<lparr>files = [''/db/GeoLite2-ASN.mmdb'' \<mapsto> ''MMDBdata''],
      open_readers = {}, next_rid = 0, trace = []\<rparr>"

definition ex_world_city_only :: world where
  "ex_world_city_only =
     \<lparr>files = [''/db/GeoLite2-City.mmdb'' \<mapsto> ''MMDBdata''],
      open_readers = {}, next_rid = 0, trace = []\<rparr>"

definition ex_world_bad_asn :: world where
  "ex_world_bad_asn =
     \<lparr>files = [''/db/GeoLite2-City.mmdb'' \<mapsto> ''MMDBdata'', ''/db/GeoLite2-ASN.mmdb'' \<mapsto> ''<html>''],
      open_readers = {}, next_rid = 0, trace = []\<rparr>"

definition ex_env_no_asn :: env where
  "ex_env_no_asn = ex_env\<lparr>ASN_of := (\<lambda>bs a. Inl ''address not found'')\<rparr>"

text \<open>
  A disk whose city file, and one whose ASN file, is a MaxMind database of a type the
  library does not know; a directory in which \<open>os.Stat\<close> of the city file is refused;
  a disk on which closing a written file fails.
\<close>

definition ex_world_custom_city :: world where
  "ex_world_custom_city =
     \<lparr>files = [''/db/GeoLite2-City.mmdb'' \<mapsto> ''MMDBcustom'', ''/db/GeoLite2-ASN.mmdb'' \<mapsto> ''MMDBdata''],
      open_readers = {}, next_rid = 0, trace = []\<rparr>"

definition ex_world_custom_asn :: world where
  "ex_world_custom_asn =
     \<lparr>files = [''/db/GeoLite2-City.mmdb'' \<mapsto> ''MMDBdata'', ''/db/GeoLite2-ASN.mmdb'' \<mapsto> ''MMDBcustom''],
      open_readers = {}, next_rid = 0, trace = []\<rparr>"

definition ex_env_stat_denied :: env where
  "ex_env_stat_denied =
     ex_env\<lparr>Stat_err :=
       (\<lambda>p. if p = ''/db/GeoLite2-City.mmdb''
            then Some ''stat /db/GeoLite2-City.mmdb: permission denied'' else None)\<rparr>"

definition ex_env_close_fails :: env where
  "ex_env_close_fails = ex_env\<lparr>FileClose_err := (\<lambda>p. Some ''close: input/output error'')\<rparr>"


section \<open>Properties\<close>

subsection \<open>Paths\<close>








subsection \<open>Traces and frames\<close>

lemma log_event_simps:
  "trace (log_event ev w) = trace w @ [ev]"
  "files (log_event ev w) = files w"
  "open_readers (log_event ev w) = open_readers w"
  "next_rid (log_event ev w) = next_rid w"
  by (simp_all add: log_event_def)

lemma new_events_append: "trace w' = trace w @ evs \<Longrightarrow> new_events w w' = evs"
  by (simp add: new_events_def)

lemma new_events_self: "new_events w w = []"
  by (simp add: new_events_def)

lemma failures_append: "failures (xs @ ys) = failures xs @ failures ys"
  by (induction xs rule: failures.induct) simp_all

lemma fetches_append: "fetches (xs @ ys) = fetches xs @ fetches ys"
  by (induction xs rule: fetches.induct) simp_all

lemma closes_append: "closes (xs @ ys) = closes xs @ closes ys"
  by (induction xs rule: closes.induct) simp_all

lemma queries_append: "queries (xs @ ys) = queries xs @ queries ys"
  by (induction xs rule: queries.induct) simp_all

lemma checked_failures_append:
  "checked_failures (xs @ ys) = checked_failures xs @ checked_failures ys"
  by (simp add: checked_failures_def failures_append)

lemma checked_failures_simps:
  "checked_failures [] = []"
  "checked_failures ((c, None) # evs) = checked_failures evs"
  "checked_failures ((c, Some m) # evs) =
     (if dropped c then checked_failures evs else m # checked_failures evs)"
  by (simp_all add: checked_failures_def)


subsection \<open>Lookups\<close>

lemma Reader_City_frame:
  "open_readers (snd (Reader_City e ro a w)) = open_readers w"
  "files (snd (Reader_City e ro a w)) = files w"
  "next_rid (snd (Reader_City e ro a w)) = next_rid w"
  by (simp_all add: Reader_City_def log_event_simps split: option.splits sum.splits)

lemma Reader_ASN_frame:
  "open_readers (snd (Reader_ASN e ro a w)) = open_readers w"
  "files (snd (Reader_ASN e ro a w)) = files w"
  "next_rid (snd (Reader_ASN e ro a w)) = next_rid w"
  by (simp_all add: Reader_ASN_def log_event_simps split: option.splits sum.splits)

lemma Reader_City_open_only:
  "open_readers w1 = open_readers w2 \<Longrightarrow> fst (Reader_City e ro a w1) = fst (Reader_City e ro a w2)"
  by (simp add: Reader_City_def split: option.splits sum.splits)

lemma Reader_ASN_open_only:
  "open_readers w1 = open_readers w2 \<Longrightarrow> fst (Reader_ASN e ro a w1) = fst (Reader_ASN e ro a w2)"
  by (simp add: Reader_ASN_def split: option.splits sum.splits)

lemma GetIPInfo_frame:
  "open_readers (snd (GetIPInfo e i s w)) = open_readers w"
  "files (snd (GetIPInfo e i s w)) = files w"
  "next_rid (snd (GetIPInfo e i s w)) = next_rid w"
  by (simp_all add: GetIPInfo_def Reader_City_frame Reader_ASN_frame Let_def split_beta
      split: option.split sum.split failure.split)

lemma GetIPInfo_success:
  assumes "fst (GetIPInfo e i s w) = Inr d"
  shows "\<exists>a rc ra city asn. ParseIP e s = Some a \<and>
      cityReader i = Some rc \<and> rid rc \<in> open_readers w \<and> City_of e (rdata rc) a = Inr city \<and>
      asnReader i = Some ra \<and> rid ra \<in> open_readers w \<and> ASN_of e (rdata ra) a = Inr asn"
  using assms
  unfolding GetIPInfo_def Reader_City_def Reader_ASN_def
  by (auto simp: log_event_simps Let_def split: option.splits sum.splits failure.splits if_splits)

lemma GetIPInfo_example:
  "fst (GetIPInfo ex_env ex_info ''192.0.2.1'' ex_world_open) = Inr ex_details"
  by (simp add: GetIPInfo_def Reader_City_def Reader_ASN_def ex_env_def ex_info_def
      ex_world_open_def ex_details_def ex_city_def ex_asn_def ex_addr_def log_event_def
      getLocalizedName_def)

text \<open>
  C1: when the input string does not parse as an address, \<open>GetIPInfo\<close> returns the
  error "invalid IP address" and leaves the world as it was: no call is added to the trace,
  so neither reader is queried.
\<close>

theorem GetIPInfo_invalid_address:
  "ParseIP e s = None \<Longrightarrow>
   GetIPInfo e i s w = (Inl (Error ''invalid IP address''), w) \<and>
   queries (new_events w (snd (GetIPInfo e i s w))) = []"
  by (simp add: GetIPInfo_def new_events_self)

theorem GetIPInfo_invalid_address_witness:
  "ParseIP ex_env ''256.1.1.1'' = None \<and>
   fst (GetIPInfo ex_env ex_info ''256.1.1.1'' ex_world_open) = Inl (Error ''invalid IP address'') \<and>
   trace (snd (GetIPInfo ex_env ex_info ''256.1.1.1'' ex_world_open)) = [] \<and>
   queries (new_events ex_world_open (snd (GetIPInfo ex_env ex_info ''256.1.1.1'' ex_world_open))) = []"
proof -
  have h: "ParseIP ex_env ''256.1.1.1'' = None"
    by (simp add: ex_env_def)
  show ?thesis
    using h GetIPInfo_invalid_address [OF h, of ex_info ex_world_open]
    by (simp add: ex_world_open_def new_events_self)
qed

text \<open>
  C4: \<open>getLocalizedName\<close> follows the fallback chain: the empty string for a nil or
  empty map, else the entry of the requested language, else the entry of "en", else the
  empty string; with the three examples of the specification.
\<close>

theorem getLocalizedName_fallback_chain:
  "(names = None \<or> names = Some Map.empty \<longrightarrow> getLocalizedName names lang = [])
   \<and> (names = Some m \<and> m lang = Some v \<longrightarrow> getLocalizedName names lang = v)
   \<and> (names = Some m \<and> m lang = None \<and> m ''en'' = Some v \<longrightarrow> getLocalizedName names lang = v)
   \<and> (names = Some m \<and> m lang = None \<and> m ''en'' = None \<longrightarrow> getLocalizedName names lang = [])
   \<and> getLocalizedName (Some [''en'' \<mapsto> ''Germany'', ''de'' \<mapsto> ''Deutschland'']) ''fr'' = ''Germany''
   \<and> getLocalizedName (Some Map.empty) ''en'' = []
   \<and> getLocalizedName None ''en'' = []"
  by (auto simp: getLocalizedName_def)

theorem getLocalizedName_fallback_chain_witness:
  "getLocalizedName (Some [''en'' \<mapsto> ''Germany'', ''de'' \<mapsto> ''Deutschland'']) ''de'' = ''Deutschland''
   \<and> getLocalizedName (Some [''en'' \<mapsto> ''Germany'', ''de'' \<mapsto> ''Deutschland'']) ''fr'' = ''Germany''
   \<and> getLocalizedName (Some [''de'' \<mapsto> ''Deutschland'']) ''fr'' = []
   \<and> getLocalizedName (Some Map.empty) ''fr'' = []
   \<and> getLocalizedName None ''fr'' = []"
  using getLocalizedName_fallback_chain
    [of "Some [''en'' \<mapsto> ''Germany'', ''de'' \<mapsto> ''Deutschland'']" "''de''"
        "[''en'' \<mapsto> ''Germany'', ''de'' \<mapsto> ''Deutschland'']" "''Deutschland''"]
    getLocalizedName_fallback_chain
    [of "Some [''en'' \<mapsto> ''Germany'', ''de'' \<mapsto> ''Deutschland'']" "''fr''"
        "[''en'' \<mapsto> ''Germany'', ''de'' \<mapsto> ''Deutschland'']" "''Germany''"]
    getLocalizedName_fallback_chain
    [of "Some [''de'' \<mapsto> ''Deutschland'']" "''fr''" "[''de'' \<mapsto> ''Deutschland'']"]
    getLocalizedName_fallback_chain [of "Some Map.empty" "''fr''"]
    getLocalizedName_fallback_chain [of None "''fr''"]
  by simp

text \<open>
  C6: in the record of every successful \<open>GetIPInfo\<close> the fields ISP, Domain and
  NetworkType are empty and the five risk flags are false.
\<close>

theorem GetIPInfo_unpopulated_fields:
  "fst (GetIPInfo e i s w) = Inr d \<Longrightarrow>
   ISP d = [] \<and> Domain' d = [] \<and> NetworkType d = [] \<and>
   \<not> IsAnonymous d \<and> \<not> IsAnonymousVPN d \<and> \<not> IsHosting d \<and> \<not> IsProxy d \<and>
   \<not> IsTorExitNode d"
  by (auto simp: GetIPInfo_def Let_def split_beta
      split: option.splits sum.splits failure.splits list.splits)

theorem GetIPInfo_unpopulated_fields_witness:
  "fst (GetIPInfo ex_env ex_info ''192.0.2.1'' ex_world_open) = Inr ex_details \<and>
   ISP ex_details = [] \<and> Domain' ex_details = [] \<and> NetworkType ex_details = [] \<and>
   \<not> IsAnonymous ex_details \<and> \<not> IsAnonymousVPN ex_details \<and> \<not> IsHosting ex_details \<and>
   \<not> IsProxy ex_details \<and> \<not> IsTorExitNode ex_details"
  using GetIPInfo_example GetIPInfo_unpopulated_fields [OF GetIPInfo_example]
  by simp

text \<open>
  C7: in the record of every successful \<open>GetIPInfo\<close>, Region and RegionCode are the
  English name and the ISO code of the first subdivision of the city result, and both are
  empty when the result has no subdivision.
\<close>

theorem GetIPInfo_region_first_subdivision:
  "fst (GetIPInfo e i s w) = Inr d \<Longrightarrow>
   \<exists>a rc city. ParseIP e s = Some a \<and> cityReader i = Some rc \<and>
     City_of e (rdata rc) a = Inr city \<and>
     (case Subdivisions city of
        [] \<Rightarrow> Region d = [] \<and> RegionCode d = []
      | sub # rest \<Rightarrow>
          Region d = getLocalizedName (Subdivision_Names sub) ''en'' \<and>
          RegionCode d = Subdivision_IsoCode sub)"
  unfolding GetIPInfo_def Reader_City_def
  by (auto simp: Let_def split_beta
      split: option.splits sum.splits failure.splits list.splits if_splits)

lemma GetIPInfo_example_bare:
  "\<exists>d. fst (GetIPInfo ex_env_bare ex_info ''192.0.2.1'' ex_world_open) = Inr d"
  by (simp add: GetIPInfo_def Reader_City_def Reader_ASN_def ex_env_def ex_env_bare_def ex_info_def
      ex_world_open_def ex_city_def ex_asn_def ex_addr_def log_event_def)

theorem GetIPInfo_region_first_subdivision_witness:
  "fst (GetIPInfo ex_env ex_info ''192.0.2.1'' ex_world_open) = Inr ex_details \<and>
   Region ex_details = ''Land Berlin'' \<and> RegionCode ex_details = ''BE'' \<and>
   (\<exists>d. fst (GetIPInfo ex_env_bare ex_info ''192.0.2.1'' ex_world_open) = Inr d \<and>
        Region d = [] \<and> RegionCode d = [])"
proof -
  obtain d where d: "fst (GetIPInfo ex_env_bare ex_info ''192.0.2.1'' ex_world_open) = Inr d"
    using GetIPInfo_example_bare by blast
  have "Region d = [] \<and> RegionCode d = []"
    using GetIPInfo_region_first_subdivision [OF d]
    by (auto simp: ex_env_bare_def ex_env_def ex_info_def)
  moreover have "Region ex_details = ''Land Berlin'' \<and> RegionCode ex_details = ''BE''"
    using GetIPInfo_region_first_subdivision [OF GetIPInfo_example]
    by (auto simp: ex_env_def ex_info_def ex_city_def getLocalizedName_def)
  ultimately show ?thesis
    using d GetIPInfo_example by blast
qed

lemma GetIPInfo_open_only:
  assumes "open_readers w1 = open_readers w2"
  shows "fst (GetIPInfo e i s w1) = fst (GetIPInfo e i s w2)"
proof (cases "ParseIP e s")
  case None
  then show ?thesis by (simp add: GetIPInfo_def)
next
  case (Some a)
  have c: "fst (Reader_City e (cityReader i) a w1) = fst (Reader_City e (cityReader i) a w2)"
    using assms by (rule Reader_City_open_only)
  have n: "fst (Reader_ASN e (asnReader i) a (snd (Reader_City e (cityReader i) a w1))) =
           fst (Reader_ASN e (asnReader i) a (snd (Reader_City e (cityReader i) a w2)))"
    by (rule Reader_ASN_open_only) (simp add: Reader_City_frame assms)
  show ?thesis
    by (simp add: GetIPInfo_def Some split_beta c n Let_def
        split: option.split sum.split failure.split)
qed

lemma GetIPInfo_contents_only:
  assumes "cityReader i = Some c" "cityReader i' = Some c'" "rdata c = rdata c'"
    and "rid c \<in> open_readers w" "rid c' \<in> open_readers w'"
    and "asnReader i = Some n" "asnReader i' = Some n'" "rdata n = rdata n'"
    and "rid n \<in> open_readers w" "rid n' \<in> open_readers w'"
  shows "fst (GetIPInfo e i s w) = fst (GetIPInfo e i' s w')"
  using assms
  by (simp add: GetIPInfo_def Reader_City_def Reader_ASN_def log_event_simps Let_def
      split: option.split sum.split)

text \<open>
  C9: \<open>GetIPInfo\<close> is repeatable: calling it again in the world the first call
  left returns the same record or the same failure; and two resolvers whose open readers
  hold the same database contents return the same for the same string, whatever else
  their worlds hold.  (The library's queries are functions of the database contents and
  the address: that much determinism of the library is part of the model.)
\<close>

theorem GetIPInfo_deterministic:
  "fst (GetIPInfo e i s (snd (GetIPInfo e i s w))) = fst (GetIPInfo e i s w) \<and>
   (cityReader i = Some c \<and> cityReader i' = Some c' \<and> rdata c = rdata c' \<and>
    rid c \<in> open_readers w \<and> rid c' \<in> open_readers w' \<and>
    asnReader i = Some n \<and> asnReader i' = Some n' \<and> rdata n = rdata n' \<and>
    rid n \<in> open_readers w \<and> rid n' \<in> open_readers w' \<longrightarrow>
    fst (GetIPInfo e i s w) = fst (GetIPInfo e i' s w'))"
  using GetIPInfo_open_only [of "snd (GetIPInfo e i s w)" w e i s]
    GetIPInfo_contents_only [of i c i' c' w w' n n' e s]
  by (simp add: GetIPInfo_frame)

theorem GetIPInfo_deterministic_witness:
  "fst (GetIPInfo ex_env ex_info ''192.0.2.1''
          (snd (GetIPInfo ex_env ex_info ''192.0.2.1'' ex_world_open))) = Inr ex_details \<and>
   fst (GetIPInfo ex_env ex_info_swapped ''192.0.2.1'' ex_world_open) = Inr ex_details"
  using GetIPInfo_deterministic
    [of ex_env ex_info "''192.0.2.1''" ex_world_open
        "\<lparr>rid = 0, rdata = ''MMDBdata''\<rparr>" ex_info_swapped "\<lparr>rid = 1, rdata = ''MMDBdata''\<rparr>"
        ex_world_open "\<lparr>rid = 1, rdata = ''MMDBdata''\<rparr>" "\<lparr>rid = 0, rdata = ''MMDBdata''\<rparr>"]
    GetIPInfo_example
  by (simp add: ex_info_def ex_info_swapped_def ex_world_open_def)

text \<open>
  C10: \<open>Close\<close> closes exactly the readers that are not nil, the city reader first,
  whatever the closes return, and does nothing else; on a resolver whose two readers are nil
  it returns the world as it was.
\<close>

theorem Close_only_non_nil:
  "new_events w (Close e i w) =
     map (\<lambda>h. (Call_ReaderClose h, ReaderClose_err e h))
       ((case cityReader i of None \<Rightarrow> [] | Some r \<Rightarrow> [rid r]) @
        (case asnReader i of None \<Rightarrow> [] | Some r \<Rightarrow> [rid r])) \<and>
   open_readers (Close e i w) =
     open_readers w -
       set ((case cityReader i of None \<Rightarrow> [] | Some r \<Rightarrow> [rid r]) @
            (case asnReader i of None \<Rightarrow> [] | Some r \<Rightarrow> [rid r])) \<and>
   files (Close e i w) = files w \<and>
   (cityReader i = None \<and> asnReader i = None \<longrightarrow> Close e i w = w)"
  by (auto simp: Close_def Reader_Close_def log_event_def new_events_def Let_def
      split: option.splits)

theorem Close_only_non_nil_witness:
  "cityReader ex_info_nil = None \<and> asnReader ex_info_nil = None \<and>
   Close ex_env ex_info_nil ex_world_open = ex_world_open \<and>
   closes (new_events ex_world_open (Close ex_env ex_info_nil ex_world_open)) = [] \<and>
   closes (new_events ex_world_open (Close ex_env ex_info ex_world_open)) = [0, 1] \<and>
   open_readers (Close ex_env ex_info ex_world_open) = {}"
  using Close_only_non_nil [of ex_world_open ex_env ex_info_nil]
    Close_only_non_nil [of ex_world_open ex_env ex_info]
  by (simp add: ex_info_nil_def ex_info_def new_events_self) (simp add: ex_world_open_def)

subsection \<open>Downloads\<close>

lemma checked_failures_dropped:
  "dropped c \<Longrightarrow> checked_failures ((c, r) # evs) = checked_failures evs"
  by (simp add: checked_failures_def)

lemma checked_failures_checked:
  "\<not> dropped c \<Longrightarrow> checked_failures ((c, r) # evs) =
     (case r of None \<Rightarrow> [] | Some m \<Rightarrow> [m]) @ checked_failures evs"
  by (cases r) (simp_all add: checked_failures_def)


lemma io_Copy_all:
  "\<forall>n. Write_err e p n = None \<Longrightarrow> fs p = Some old \<Longrightarrow>
   io_Copy e p cs rerr fs = (rerr, fs(p \<mapsto> old @ concat cs))"
  by (induction cs arbitrary: fs old) (simp_all add: Let_def fun_upd_idem)


lemma downloadFile_trace:
  "\<exists>evs. trace (snd (downloadFile e u fp w)) = trace w @ evs \<and> fetches evs = [u]
     \<and> closes evs = [] \<and> queries evs = []
     \<and> ((fst (downloadFile e u fp w) = None \<and> checked_failures evs = [])
        \<or> (\<exists>m. fst (downloadFile e u fp w) = Some m \<and> checked_failures evs = [m])
        \<or> (\<exists>resp. http_Get e u = Inr resp \<and> StatusCode resp \<noteq> 200 \<and>
             fst (downloadFile e u fp w) = Some (''bad status: '' @ Status resp) \<and>
             checked_failures evs = []))"
  by (cases "fst (io_Copy e fp (Body_chunks (projr (http_Get e u))) (Body_err (projr (http_Get e u))) ((files w)(fp \<mapsto> [])))")
     (auto simp: downloadFile_def log_event_simps Let_def checked_failures_dropped
        checked_failures_checked checked_failures_simps split: sum.splits option.splits)



text \<open>
  C3 (as amended): a transport error of the GET is returned as it is; a response whose status is
  not 200 fails with "bad status: " and the status line, and no file is created; on status 200,
  when the file can be created and every write succeeds, every chunk read from the body is
  written to the destination file and the call returns nil when the body ended normally
  (the read error that ended it otherwise).
\<close>

theorem downloadFile_outcomes:
  "(http_Get e u = Inl err \<longrightarrow>
      fst (downloadFile e u fp w) = Some err \<and> files (snd (downloadFile e u fp w)) = files w)
   \<and> (http_Get e u = Inr resp \<and> StatusCode resp \<noteq> 200 \<longrightarrow>
      fst (downloadFile e u fp w) = Some (''bad status: '' @ Status resp) \<and>
      files (snd (downloadFile e u fp w)) = files w)
   \<and> (http_Get e u = Inr resp \<and> StatusCode resp = 200 \<and> Create_err e fp = None \<and>
      (\<forall>n. Write_err e fp n = None) \<longrightarrow>
      fst (downloadFile e u fp w) = Body_err resp \<and>
      files (snd (downloadFile e u fp w)) = (files w)(fp \<mapsto> concat (Body_chunks resp)))"
proof (intro conjI impI)
  assume a: "http_Get e u = Inr resp \<and> StatusCode resp = 200 \<and> Create_err e fp = None \<and>
      (\<forall>n. Write_err e fp n = None)"
  then have cp: "io_Copy e fp (Body_chunks resp) (Body_err resp) ((files w)(fp \<mapsto> [])) =
      (Body_err resp, (files w)(fp \<mapsto> concat (Body_chunks resp)))"
    using io_Copy_all [of e fp "(files w)(fp \<mapsto> [])" "[]" "Body_chunks resp" "Body_err resp"]
    by simp
  show "fst (downloadFile e u fp w) = Body_err resp"
    using a by (simp add: downloadFile_def log_event_simps Let_def cp)
  show "files (snd (downloadFile e u fp w)) = (files w)(fp \<mapsto> concat (Body_chunks resp))"
    using a by (simp add: downloadFile_def log_event_simps Let_def cp)
qed (simp_all add: downloadFile_def log_event_simps)

theorem downloadFile_outcomes_witness:
  "http_Get ex_env_offline cityDBURL = Inl ''dial tcp: no such host'' \<and>
   fst (downloadFile ex_env_offline cityDBURL ''/db/GeoLite2-City.mmdb'' ex_world) =
     Some ''dial tcp: no such host'' \<and>
   http_Get ex_env_404 cityDBURL = Inr ex_response_404 \<and> StatusCode ex_response_404 \<noteq> 200 \<and>
   fst (downloadFile ex_env_404 cityDBURL ''/db/GeoLite2-City.mmdb'' ex_world) =
     Some ''bad status: 404 Not Found'' \<and>
   files (snd (downloadFile ex_env_404 cityDBURL ''/db/GeoLite2-City.mmdb'' ex_world))
     ''/db/GeoLite2-City.mmdb'' = None \<and>
   http_Get ex_env cityDBURL = Inr ex_response \<and> StatusCode ex_response = 200 \<and>
   Create_err ex_env ''/db/GeoLite2-City.mmdb'' = None \<and>
   fst (downloadFile ex_env cityDBURL ''/db/GeoLite2-City.mmdb'' ex_world) = None \<and>
   files (snd (downloadFile ex_env cityDBURL ''/db/GeoLite2-City.mmdb'' ex_world))
     ''/db/GeoLite2-City.mmdb'' = Some ''MMDBdata''"
proof -
  have off: "http_Get ex_env_offline cityDBURL = Inl ''dial tcp: no such host''"
    by (simp add: ex_env_offline_def)
  have nf: "http_Get ex_env_404 cityDBURL = Inr ex_response_404 \<and> StatusCode ex_response_404 \<noteq> 200"
    by (simp add: ex_env_404_def ex_response_404_def)
  have ok: "http_Get ex_env cityDBURL = Inr ex_response \<and> StatusCode ex_response = 200 \<and>
      Create_err ex_env ''/db/GeoLite2-City.mmdb'' = None \<and>
      (\<forall>n. Write_err ex_env ''/db/GeoLite2-City.mmdb'' n = None)"
    by (simp add: ex_env_def ex_response_def)
  show ?thesis
    using off nf ok
      downloadFile_outcomes [of ex_env_offline cityDBURL "''dial tcp: no such host''"
        "''/db/GeoLite2-City.mmdb''" ex_world]
      downloadFile_outcomes [of ex_env_404 cityDBURL _ "''/db/GeoLite2-City.mmdb''" ex_world
        ex_response_404]
      downloadFile_outcomes [of ex_env cityDBURL _ "''/db/GeoLite2-City.mmdb''" ex_world
        ex_response]
    by (simp add: ex_response_404_def ex_response_def ex_world_def)
qed

text \<open>
  C3 as stated promises success for every 2xx status.  A 203 response with a full body,
  nothing else failing, is refused and leaves no file.
\<close>

theorem downloadFile_2xx_counterexample:
  "http_Get ex_env_203 cityDBURL = Inr ex_response_203 \<and>
   200 \<le> StatusCode ex_response_203 \<and> StatusCode ex_response_203 < 300 \<and>
   Create_err ex_env_203 ''/db/GeoLite2-City.mmdb'' = None \<and>
   Write_err ex_env_203 ''/db/GeoLite2-City.mmdb'' 0 = None \<and>
   Body_err ex_response_203 = None \<and>
   fst (downloadFile ex_env_203 cityDBURL ''/db/GeoLite2-City.mmdb'' ex_world) =
     Some ''bad status: 203 Non-Authoritative Information'' \<and>
   files (snd (downloadFile ex_env_203 cityDBURL ''/db/GeoLite2-City.mmdb'' ex_world))
     ''/db/GeoLite2-City.mmdb'' = None"
  by (simp add: downloadFile_def ex_env_203_def ex_env_def ex_response_203_def ex_response_def
      ex_world_def log_event_def)

subsection \<open>Provisioning and construction\<close>

lemma ensureDatabases_phases:
  "ensureDatabases e i w =
     (case fetch_if_absent e cityDBURL (cityDB_path (dbDir i)) w of
        (Some err, w1) \<Rightarrow> (Some (''failed to download city database: '' @ err), i, w1)
      | (None, w1) \<Rightarrow>
          (case fetch_if_absent e asnDBURL (asnDB_path (dbDir i)) w1 of
             (Some err, w2) \<Rightarrow> (Some (''failed to download ASN database: '' @ err), i, w2)
           | (None, w2) \<Rightarrow> open_databases e i w2))"
  by (simp add: ensureDatabases_def fetch_if_absent_def open_databases_def Let_def split_beta
      split: option.split)

text \<open>Whether \<open>os.Stat\<close> answers "does not exist".\<close>

lemma os_Stat_simps:
  "os_IsNotExist (fst (os_Stat e p w)) \<longleftrightarrow> Stat_err e p = None \<and> files w p = None"
  "\<exists>r. snd (os_Stat e p w) = log_event (Call_Stat p, r) w"
  by (auto simp: os_Stat_def os_IsNotExist_def split: option.splits)

lemma fetch_if_absent_trace:
  "\<exists>evs. trace (snd (fetch_if_absent e u p w)) = trace w @ evs
     \<and> fetches evs = (if Stat_err e p = None \<and> files w p = None then [u] else [])
     \<and> closes evs = [] \<and> queries evs = []
     \<and> ((fst (fetch_if_absent e u p w) = None \<and> checked_failures evs = [])
        \<or> (\<exists>m. fst (fetch_if_absent e u p w) = Some m \<and> checked_failures evs = [m])
        \<or> (\<exists>resp. http_Get e u = Inr resp \<and> StatusCode resp \<noteq> 200 \<and>
             fst (fetch_if_absent e u p w) = Some (''bad status: '' @ Status resp) \<and>
             checked_failures evs = []))"
proof -
  obtain r where r: "snd (os_Stat e p w) = log_event (Call_Stat p, r) w"
    using os_Stat_simps(2) by blast
  let ?w0 = "log_event (Call_Stat p, r) w"
  show ?thesis
  proof (cases "Stat_err e p = None \<and> files w p = None")
    case True
    have eq: "fetch_if_absent e u p w = downloadFile e u p ?w0"
      using True os_Stat_simps(1) [of e p w] by (simp add: fetch_if_absent_def Let_def r)
    obtain evs where evs: "trace (snd (downloadFile e u p ?w0)) = trace ?w0 @ evs"
      "fetches evs = [u]" "closes evs = []" "queries evs = []"
      "(fst (downloadFile e u p ?w0) = None \<and> checked_failures evs = [])
          \<or> (\<exists>m. fst (downloadFile e u p ?w0) = Some m \<and> checked_failures evs = [m])
          \<or> (\<exists>resp. http_Get e u = Inr resp \<and> StatusCode resp \<noteq> 200 \<and>
               fst (downloadFile e u p ?w0) = Some (''bad status: '' @ Status resp) \<and>
               checked_failures evs = [])"
      using downloadFile_trace [of e u p ?w0] by blast
    show ?thesis
    proof (intro exI [of _ "(Call_Stat p, r) # evs"] conjI)
      show "trace (snd (fetch_if_absent e u p w)) = trace w @ (Call_Stat p, r) # evs"
        using evs(1) by (simp add: eq log_event_simps)
    qed (use True evs in \<open>simp_all add: eq checked_failures_dropped\<close>)
  next
    case False
    then have eq: "fetch_if_absent e u p w = (None, ?w0)"
      using os_Stat_simps(1) [of e p w] by (auto simp: fetch_if_absent_def Let_def r)
    show ?thesis
      by (rule exI [of _ "[(Call_Stat p, r)]"])
         (use False in \<open>auto simp: eq log_event_simps checked_failures_dropped checked_failures_simps\<close>)
  qed
qed


lemma fetch_if_absent_skipped:
  "Stat_err e p \<noteq> None \<or> files w p \<noteq> None \<Longrightarrow> fst (fetch_if_absent e u p w) = None"
  "Stat_err e p \<noteq> None \<or> files w p \<noteq> None \<Longrightarrow> files (snd (fetch_if_absent e u p w)) = files w"
  using os_Stat_simps [of e p w]
  by (auto simp: fetch_if_absent_def Let_def log_event_simps)


lemma ensureDatabases_cases:
  obtains (city_download) err w1 where
      "fetch_if_absent e cityDBURL (cityDB_path (dbDir i)) w = (Some err, w1)"
      "ensureDatabases e i w = (Some (''failed to download city database: '' @ err), i, w1)"
  | (asn_download) w1 err w2 where
      "fetch_if_absent e cityDBURL (cityDB_path (dbDir i)) w = (None, w1)"
      "fetch_if_absent e asnDBURL (asnDB_path (dbDir i)) w1 = (Some err, w2)"
      "ensureDatabases e i w = (Some (''failed to download ASN database: '' @ err), i, w2)"
  | (open_phase) w1 w2 where
      "fetch_if_absent e cityDBURL (cityDB_path (dbDir i)) w = (None, w1)"
      "fetch_if_absent e asnDBURL (asnDB_path (dbDir i)) w1 = (None, w2)"
      "ensureDatabases e i w = open_databases e i w2"
proof -
  obtain r1 w1 where f1: "fetch_if_absent e cityDBURL (cityDB_path (dbDir i)) w = (r1, w1)"
    by (cases "fetch_if_absent e cityDBURL (cityDB_path (dbDir i)) w")
  obtain r2 w2 where f2: "fetch_if_absent e asnDBURL (asnDB_path (dbDir i)) w1 = (r2, w2)"
    by (cases "fetch_if_absent e asnDBURL (asnDB_path (dbDir i)) w1")
  show thesis
  proof (cases r1)
    case (Some err)
    then show thesis using f1 city_download by (simp add: ensureDatabases_phases)
  next
    case None
    note n1 = this
    show thesis
    proof (cases r2)
      case (Some err)
      then show thesis using f1 f2 n1 asn_download by (simp add: ensureDatabases_phases)
    next
      case None
      then show thesis using f1 f2 n1 open_phase by (simp add: ensureDatabases_phases)
    qed
  qed
qed

lemma open_databases_trace:
  assumes "open_databases e i w = (r, i', w')"
  shows "\<exists>evs. trace w' = trace w @ evs
     \<and> fetches evs = [] \<and> queries evs = [] \<and> files w' = files w
     \<and> (r = None \<longrightarrow> checked_failures evs = [] \<and> closes evs = [] \<and>
          (\<exists>rc ra. cityReader i' = Some rc \<and> asnReader i' = Some ra \<and>
             rid rc = next_rid w \<and> rid ra = Suc (next_rid w) \<and>
             open_readers w' = insert (rid ra) (insert (rid rc) (open_readers w))))
     \<and> (\<forall>err. r = Some err \<longrightarrow> (\<exists>m. checked_failures evs = [m] \<and>
             (err = ''failed to open city database: '' @ m \<and> closes evs = []
              \<or> err = ''failed to open ASN database: '' @ m \<and>
                 closes evs = [next_rid w] \<and> next_rid w \<notin> open_readers w' \<and>
                 (\<exists>bs. cityReader i' = Some \<lparr>rid = next_rid w, rdata = bs\<rparr>))))"
  using assms
  by (auto simp: open_databases_def geoip2_Open_def Reader_Close_def
      log_event_simps Let_def checked_failures_dropped checked_failures_checked
      checked_failures_simps split: option.splits)

lemma new_events_compose:
  assumes "trace w1 = trace w @ new_events w w1" "trace w2 = trace w1 @ new_events w1 w2"
  shows "trace w2 = trace w @ new_events w w2"
    and "new_events w w2 = new_events w w1 @ new_events w1 w2"
proof -
  have "trace w2 = trace w @ (new_events w w1 @ new_events w1 w2)"
    using assms by simp
  then show "new_events w w2 = new_events w w1 @ new_events w1 w2"
    by (rule new_events_append)
  then show "trace w2 = trace w @ new_events w w2"
    using assms by simp
qed

lemma fetch_if_absent_events:
  assumes "fetch_if_absent e u p w = (r, w')"
  shows "trace w' = trace w @ new_events w w'"
    and "fetches (new_events w w') = (if Stat_err e p = None \<and> files w p = None then [u] else [])"
    and "closes (new_events w w') = []"
    and "queries (new_events w w') = []"
    and "(r = None \<and> checked_failures (new_events w w') = [])
        \<or> (\<exists>m. r = Some m \<and> checked_failures (new_events w w') = [m])
        \<or> (\<exists>resp. http_Get e u = Inr resp \<and> StatusCode resp \<noteq> 200 \<and>
             r = Some (''bad status: '' @ Status resp) \<and> checked_failures (new_events w w') = [])"
proof -
  obtain evs where evs: "trace w' = trace w @ evs"
     "fetches evs = (if Stat_err e p = None \<and> files w p = None then [u] else [])"
     "closes evs = []" "queries evs = []"
     "(r = None \<and> checked_failures evs = [])
        \<or> (\<exists>m. r = Some m \<and> checked_failures evs = [m])
        \<or> (\<exists>resp. http_Get e u = Inr resp \<and> StatusCode resp \<noteq> 200 \<and>
             r = Some (''bad status: '' @ Status resp) \<and> checked_failures evs = [])"
    using fetch_if_absent_trace [of e u p w] assms by auto
  have ne: "new_events w w' = evs"
    using evs(1) by (rule new_events_append)
  show "trace w' = trace w @ new_events w w'"
    and "fetches (new_events w w') = (if Stat_err e p = None \<and> files w p = None then [u] else [])"
    and "closes (new_events w w') = []"
    and "queries (new_events w w') = []"
    and "(r = None \<and> checked_failures (new_events w w') = [])
        \<or> (\<exists>m. r = Some m \<and> checked_failures (new_events w w') = [m])
        \<or> (\<exists>resp. http_Get e u = Inr resp \<and> StatusCode resp \<noteq> 200 \<and>
             r = Some (''bad status: '' @ Status resp) \<and> checked_failures (new_events w w') = [])"
    using evs by (simp_all only: ne)
qed

lemma open_databases_events:
  assumes "open_databases e i w = (r, i', w')"
  shows "trace w' = trace w @ new_events w w'"
    and "fetches (new_events w w') = []"
    and "queries (new_events w w') = []"
    and "files w' = files w"
    and "r = None \<Longrightarrow> checked_failures (new_events w w') = [] \<and> closes (new_events w w') = [] \<and>
          (\<exists>rc ra. cityReader i' = Some rc \<and> asnReader i' = Some ra \<and>
             rid rc = next_rid w \<and> rid ra = Suc (next_rid w) \<and>
             open_readers w' = insert (rid ra) (insert (rid rc) (open_readers w)))"
    and "r = Some err \<Longrightarrow> \<exists>m. checked_failures (new_events w w') = [m] \<and>
             (err = ''failed to open city database: '' @ m \<and> closes (new_events w w') = []
              \<or> err = ''failed to open ASN database: '' @ m \<and>
                 closes (new_events w w') = [next_rid w] \<and> next_rid w \<notin> open_readers w' \<and>
                 (\<exists>bs. cityReader i' = Some \<lparr>rid = next_rid w, rdata = bs\<rparr>))"
proof -
  obtain evs where evs: "trace w' = trace w @ evs"
     "fetches evs = []" "queries evs = []" "files w' = files w"
     "r = None \<longrightarrow> checked_failures evs = [] \<and> closes evs = [] \<and>
          (\<exists>rc ra. cityReader i' = Some rc \<and> asnReader i' = Some ra \<and>
             rid rc = next_rid w \<and> rid ra = Suc (next_rid w) \<and>
             open_readers w' = insert (rid ra) (insert (rid rc) (open_readers w)))"
     "\<forall>err. r = Some err \<longrightarrow> (\<exists>m. checked_failures evs = [m] \<and>
             (err = ''failed to open city database: '' @ m \<and> closes evs = []
              \<or> err = ''failed to open ASN database: '' @ m \<and>
                 closes evs = [next_rid w] \<and> next_rid w \<notin> open_readers w' \<and>
                 (\<exists>bs. cityReader i' = Some \<lparr>rid = next_rid w, rdata = bs\<rparr>)))"
    using open_databases_trace [OF assms] by blast
  have ne: "new_events w w' = evs"
    using evs(1) by (rule new_events_append)
  show "trace w' = trace w @ new_events w w'"
    and "fetches (new_events w w') = []"
    and "queries (new_events w w') = []"
    and "files w' = files w"
    using evs by (simp_all only: ne)
  show "r = None \<Longrightarrow> checked_failures (new_events w w') = [] \<and> closes (new_events w w') = [] \<and>
          (\<exists>rc ra. cityReader i' = Some rc \<and> asnReader i' = Some ra \<and>
             rid rc = next_rid w \<and> rid ra = Suc (next_rid w) \<and>
             open_readers w' = insert (rid ra) (insert (rid rc) (open_readers w)))"
    using evs(5) by (simp add: ne)
  show "r = Some err \<Longrightarrow> \<exists>m. checked_failures (new_events w w') = [m] \<and>
             (err = ''failed to open city database: '' @ m \<and> closes (new_events w w') = []
              \<or> err = ''failed to open ASN database: '' @ m \<and>
                 closes (new_events w w') = [next_rid w] \<and> next_rid w \<notin> open_readers w' \<and>
                 (\<exists>bs. cityReader i' = Some \<lparr>rid = next_rid w, rdata = bs\<rparr>))"
    using evs(6) by (simp add: ne)
qed

lemma suffix_wrap: "suffix m (p @ m)"
  by (simp add: suffix_def)

lemma fetch_if_absent_explained:
  assumes "fetch_if_absent e u p w = (Some err, w')"
  shows "carries_cause (pre @ err) (new_events w w') \<or> reports_status e (pre @ err) (new_events w w')"
proof -
  have absent: "Stat_err e p = None \<and> files w p = None"
    using assms fetch_if_absent_skipped(1) [of e p w u] by fastforce
  have f: "fetches (new_events w w') = [u]"
    using fetch_if_absent_events(2) [OF assms] absent by simp
  from fetch_if_absent_events(5) [OF assms]
  consider m where "err = m" "checked_failures (new_events w w') = [m]"
    | resp where "http_Get e u = Inr resp" "StatusCode resp \<noteq> 200"
        "err = ''bad status: '' @ Status resp" "checked_failures (new_events w w') = []"
    by auto
  then show ?thesis
  proof cases
    case 1
    then show ?thesis by (simp add: carries_cause_def suffix_wrap)
  next
    case 2
    then show ?thesis using f by (simp add: reports_status_def suffix_wrap)
  qed
qed

lemma carries_cause_prepend:
  "checked_failures xs = [] \<Longrightarrow> carries_cause err ys \<Longrightarrow> carries_cause err (xs @ ys)"
  by (simp add: carries_cause_def checked_failures_append)

lemma reports_status_prepend:
  "checked_failures xs = [] \<Longrightarrow> reports_status e err ys \<Longrightarrow> reports_status e err (xs @ ys)"
  by (auto simp: reports_status_def checked_failures_append fetches_append)

lemma fetch_if_absent_ok:
  assumes "fetch_if_absent e u p w = (None, w')"
  shows "checked_failures (new_events w w') = []"
  using fetch_if_absent_events(5) [OF assms] by simp

lemma ensureDatabases_events:
  assumes "ensureDatabases e i w = (r, i', w')"
  shows "trace w' = trace w @ new_events w w'"
    and "queries (new_events w w') = []"
    and "r = None \<Longrightarrow> checked_failures (new_events w w') = []"
    and "r = Some err \<Longrightarrow>
           carries_cause err (new_events w w') \<or> reports_status e err (new_events w w')"
proof -
  let ?c = "cityDB_path (dbDir i)" and ?a = "asnDB_path (dbDir i)"
  have "trace w' = trace w @ new_events w w' \<and> queries (new_events w w') = [] \<and>
        (r = None \<longrightarrow> checked_failures (new_events w w') = []) \<and>
        (r = Some err \<longrightarrow>
           carries_cause err (new_events w w') \<or> reports_status e err (new_events w w'))"
  proof (cases rule: ensureDatabases_cases [of e i w])
    case (city_download err1 w1)
    then have eq: "r = Some (''failed to download city database: '' @ err1)" "w' = w1"
      using assms by simp_all
    show ?thesis
      using fetch_if_absent_events(1,4) [OF city_download(1)]
        fetch_if_absent_explained [OF city_download(1), of "''failed to download city database: ''"]
      by (auto simp: eq)
  next
    case (asn_download w1 err2 w2)
    then have eq: "r = Some (''failed to download ASN database: '' @ err2)" "w' = w2"
      using assms by simp_all
    note c = new_events_compose [OF fetch_if_absent_events(1) [OF asn_download(1)]
        fetch_if_absent_events(1) [OF asn_download(2)]]
    have "carries_cause (''failed to download ASN database: '' @ err2) (new_events w w2) \<or>
          reports_status e (''failed to download ASN database: '' @ err2) (new_events w w2)"
      using fetch_if_absent_explained [OF asn_download(2), of "''failed to download ASN database: ''"]
        fetch_if_absent_ok [OF asn_download(1)]
      by (auto simp: c(2) intro: carries_cause_prepend reports_status_prepend)
    then show ?thesis
      using c fetch_if_absent_events(4) [OF asn_download(1)]
        fetch_if_absent_events(4) [OF asn_download(2)]
      by (auto simp: eq queries_append)
  next
    case (open_phase w1 w2)
    then have od: "open_databases e i w2 = (r, i', w')"
      using assms by simp
    note c1 = new_events_compose [OF fetch_if_absent_events(1) [OF open_phase(1)]
        fetch_if_absent_events(1) [OF open_phase(2)]]
    note c = new_events_compose [OF c1(1) open_databases_events(1) [OF od]]
    have f12: "checked_failures (new_events w w2) = []" "queries (new_events w w2) = []"
      using fetch_if_absent_ok [OF open_phase(1)] fetch_if_absent_ok [OF open_phase(2)]
        fetch_if_absent_events(4) [OF open_phase(1)] fetch_if_absent_events(4) [OF open_phase(2)]
      by (simp_all add: c1(2) checked_failures_append queries_append)
    have ok: "r = None \<longrightarrow> checked_failures (new_events w w') = []"
      using open_databases_events(5) [OF od] f12 by (simp add: c(2) checked_failures_append)
    have bad: "r = Some err \<longrightarrow> carries_cause err (new_events w w')"
    proof
      assume "r = Some err"
      from open_databases_events(6) [OF od this]
      have "carries_cause err (new_events w2 w')"
        unfolding carries_cause_def by (metis suffix_wrap)
      then show "carries_cause err (new_events w w')"
        using f12(1) by (simp add: c(2) carries_cause_prepend)
    qed
    show ?thesis
      using c(1) f12(2) open_databases_events(3) [OF od] ok bad
      by (simp add: c(2) queries_append)
  qed
  then show "trace w' = trace w @ new_events w w'"
    and "queries (new_events w w') = []"
    and "r = None \<Longrightarrow> checked_failures (new_events w w') = []"
    and "r = Some err \<Longrightarrow>
           carries_cause err (new_events w w') \<or> reports_status e err (new_events w w')"
    by simp_all
qed



lemma ensureDatabases_handles:
  assumes "ensureDatabases e i w = (r, i', w')"
  shows "r = None \<Longrightarrow> \<exists>rc ra. cityReader i' = Some rc \<and> asnReader i' = Some ra \<and>
           rid rc \<noteq> rid ra \<and> rid rc \<in> open_readers w' \<and> rid ra \<in> open_readers w'"
    and "r = Some (''failed to open ASN database: '' @ m) \<Longrightarrow>
           \<exists>rc. cityReader i' = Some rc \<and> closes (new_events w w') = [rid rc] \<and>
             rid rc \<notin> open_readers w'"
proof -
  have "(r = None \<longrightarrow> (\<exists>rc ra. cityReader i' = Some rc \<and> asnReader i' = Some ra \<and>
           rid rc \<noteq> rid ra \<and> rid rc \<in> open_readers w' \<and> rid ra \<in> open_readers w'))
     \<and> (r = Some (''failed to open ASN database: '' @ m) \<longrightarrow>
           (\<exists>rc. cityReader i' = Some rc \<and> closes (new_events w w') = [rid rc] \<and>
             rid rc \<notin> open_readers w'))"
  proof (cases rule: ensureDatabases_cases [of e i w])
    case (city_download err1 w1)
    then show ?thesis using assms by simp
  next
    case (asn_download w1 err2 w2)
    then show ?thesis using assms by simp
  next
    case (open_phase w1 w2)
    then have od: "open_databases e i w2 = (r, i', w')"
      using assms by simp
    note c1 = new_events_compose [OF fetch_if_absent_events(1) [OF open_phase(1)]
        fetch_if_absent_events(1) [OF open_phase(2)]]
    note c = new_events_compose [OF c1(1) open_databases_events(1) [OF od]]
    have cl: "closes (new_events w w') = closes (new_events w2 w')"
      using fetch_if_absent_events(3) [OF open_phase(1)] fetch_if_absent_events(3) [OF open_phase(2)]
      by (simp add: c(2) c1(2) closes_append)
    have ok: "r = None \<longrightarrow> (\<exists>rc ra. cityReader i' = Some rc \<and> asnReader i' = Some ra \<and>
           rid rc \<noteq> rid ra \<and> rid rc \<in> open_readers w' \<and> rid ra \<in> open_readers w')"
      using open_databases_events(5) [OF od] by auto
    have "r = Some (''failed to open ASN database: '' @ m) \<longrightarrow>
           (\<exists>rc. cityReader i' = Some rc \<and> closes (new_events w w') = [rid rc] \<and>
             rid rc \<notin> open_readers w')"
    proof
      assume r: "r = Some (''failed to open ASN database: '' @ m)"
      from open_databases_events(6) [OF od r]
      obtain bs where "closes (new_events w2 w') = [next_rid w2]"
        "next_rid w2 \<notin> open_readers w'"
        "cityReader i' = Some \<lparr>rid = next_rid w2, rdata = bs\<rparr>"
        by auto
      then show "\<exists>rc. cityReader i' = Some rc \<and> closes (new_events w w') = [rid rc] \<and>
             rid rc \<notin> open_readers w'"
        by (auto simp: cl)
    qed
    with ok show ?thesis by blast
  qed
  then show "r = None \<Longrightarrow> \<exists>rc ra. cityReader i' = Some rc \<and> asnReader i' = Some ra \<and>
           rid rc \<noteq> rid ra \<and> rid rc \<in> open_readers w' \<and> rid ra \<in> open_readers w'"
    and "r = Some (''failed to open ASN database: '' @ m) \<Longrightarrow>
           \<exists>rc. cityReader i' = Some rc \<and> closes (new_events w w') = [rid rc] \<and>
             rid rc \<notin> open_readers w'"
    by blast+
qed

lemma NewIPInfo_cases:
  obtains (home_failed) err where
      "NewIPInfo e dir w =
         (Inl (''failed to get user home directory: '' @ err),
          log_event (Call_UserHomeDir, Some err) w)"
  | (mkdir_failed) dir1 w1 err where
      "w1 = w \<or> w1 = log_event (Call_UserHomeDir, None) w"
      "NewIPInfo e dir w =
         (Inl (''failed to create database directory: '' @ err),
          log_event (Call_MkdirAll dir1, Some err) w1)"
  | (ensure_failed) dir1 w1 err i' w2 where
      "w1 = w \<or> w1 = log_event (Call_UserHomeDir, None) w"
      "ensureDatabases e \<lparr>cityReader = None, asnReader = None, dbDir = dir1\<rparr>
         (log_event (Call_MkdirAll dir1, None) w1) = (Some err, i', w2)"
      "NewIPInfo e dir w = (Inl err, w2)"
  | (constructed) dir1 w1 i' w2 where
      "w1 = w \<or> w1 = log_event (Call_UserHomeDir, None) w"
      "ensureDatabases e \<lparr>cityReader = None, asnReader = None, dbDir = dir1\<rparr>
         (log_event (Call_MkdirAll dir1, None) w1) = (None, i', w2)"
      "NewIPInfo e dir w = (Inr i', w2)"
proof -
  define h where "h = (if dir = []
               then (case UserHomeDir e of
                       Inl err \<Rightarrow>
                         (Inl (''failed to get user home directory: '' @ err),
                          log_event (Call_UserHomeDir, Some err) w)
                     | Inr userHome \<Rightarrow>
                         (Inr (filepath_Join [userHome, ''.zscan'', ''geoip'']),
                          log_event (Call_UserHomeDir, None) w))
               else (Inr dir, w))"
  have N: "NewIPInfo e dir w =
      (case h of
           (Inl err, w1) \<Rightarrow> (Inl err, w1)
         | (Inr dir1, w1) \<Rightarrow>
      (case MkdirAll e dir1 of
         Some err \<Rightarrow>
           (Inl (''failed to create database directory: '' @ err),
            log_event (Call_MkdirAll dir1, Some err) w1)
       | None \<Rightarrow>
      (let i = \<lparr>cityReader = None, asnReader = None, dbDir = dir1\<rparr>
       in case ensureDatabases e i (log_event (Call_MkdirAll dir1, None) w1) of
            (Some err, i', w2) \<Rightarrow> (Inl err, w2)
          | (None, i', w2) \<Rightarrow> (Inr i', w2))))"
    by (simp add: NewIPInfo_def h_def Let_def)
  obtain x w1 where h: "h = (x, w1)"
    by (cases h)
  show thesis
  proof (cases x)
    case (Inl err)
    then have "\<exists>err0. h = (Inl (''failed to get user home directory: '' @ err0),
          log_event (Call_UserHomeDir, Some err0) w)"
      using h by (auto simp: h_def split: if_splits sum.splits)
    then show thesis
      using home_failed by (auto simp: N)
  next
    case (Inr dir1)
    have w1: "w1 = w \<or> w1 = log_event (Call_UserHomeDir, None) w"
      using h Inr by (auto simp: h_def split: if_splits sum.splits)
    show thesis
    proof (cases "MkdirAll e dir1")
      case (Some err)
      then show thesis
        using mkdir_failed [OF w1] by (simp add: N h Inr)
    next
      case None
      obtain r i' w2 where ed:
        "ensureDatabases e \<lparr>cityReader = None, asnReader = None, dbDir = dir1\<rparr>
           (log_event (Call_MkdirAll dir1, None) w1) = (r, i', w2)"
        by (metis prod_cases3)
      show thesis
      proof (cases r)
        case (Some err)
        then show thesis
          using ensure_failed [OF w1] ed by (simp add: N h Inr None)
      next
        case None2: None
        then show thesis
          using constructed [OF w1] ed by (simp add: N h Inr None)
      qed
    qed
  qed
qed

lemma NewIPInfo_prelude:
  assumes "w1 = w \<or> w1 = log_event (Call_UserHomeDir, None) w"
  shows "trace (log_event (c, x) w1) = trace w @ new_events w (log_event (c, x) w1)"
    and "checked_failures (new_events w (log_event (c, None) w1)) = []"
    and "\<not> dropped c \<Longrightarrow> checked_failures (new_events w (log_event (c, Some m) w1)) = [m]"
  using assms by (auto simp: log_event_def new_events_def checked_failures_simps)

lemma NewIPInfo_summary:
  assumes "NewIPInfo e dir w = (res, w')"
  shows "(\<forall>i'. res = Inr i' \<longrightarrow> checked_failures (new_events w w') = [] \<and>
            (\<exists>rc ra. cityReader i' = Some rc \<and> asnReader i' = Some ra \<and> rid rc \<noteq> rid ra \<and>
               rid rc \<in> open_readers w' \<and> rid ra \<in> open_readers w'))
       \<and> (\<forall>err. res = Inl err \<longrightarrow>
            carries_cause err (new_events w w') \<or> reports_status e err (new_events w w'))"
proof (cases rule: NewIPInfo_cases [of e dir w])
  case (home_failed err)
  then have eq: "res = Inl (''failed to get user home directory: '' @ err)"
    "w' = log_event (Call_UserHomeDir, Some err) w"
    using assms by simp_all
  have "carries_cause (''failed to get user home directory: '' @ err) (new_events w w')"
    unfolding carries_cause_def eq using NewIPInfo_prelude(3) [of w w Call_UserHomeDir err]
    by (metis suffix_wrap dropped.simps(5))
  then show ?thesis
    by (simp add: eq)
next
  case (mkdir_failed dir1 w1 err)
  then have eq: "res = Inl (''failed to create database directory: '' @ err)"
    "w' = log_event (Call_MkdirAll dir1, Some err) w1"
    using assms by simp_all
  have "carries_cause (''failed to create database directory: '' @ err) (new_events w w')"
    unfolding carries_cause_def eq
    using NewIPInfo_prelude(3) [OF mkdir_failed(1), of "Call_MkdirAll dir1" err]
    by (metis suffix_wrap dropped.simps(6))
  then show ?thesis
    by (simp add: eq)
next
  case (ensure_failed dir1 w1 err i' w2)
  then have eq: "res = Inl err" "w' = w2"
    using assms by simp_all
  note p = NewIPInfo_prelude [OF ensure_failed(1), of "Call_MkdirAll dir1"]
  note c = new_events_compose [OF p(1) ensureDatabases_events(1) [OF ensure_failed(2)]]
  have "carries_cause err (new_events w w2) \<or> reports_status e err (new_events w w2)"
    using ensureDatabases_events(4) [OF ensure_failed(2) refl] p(2)
    by (auto simp: c(2) intro: carries_cause_prepend reports_status_prepend)
  then show ?thesis
    by (simp add: eq)
next
  case (constructed dir1 w1 i' w2)
  then have eq: "res = Inr i'" "w' = w2"
    using assms by simp_all
  note p = NewIPInfo_prelude [OF constructed(1), of "Call_MkdirAll dir1"]
  note c = new_events_compose [OF p(1) ensureDatabases_events(1) [OF constructed(2)]]
  have "checked_failures (new_events w w2) = []"
    using ensureDatabases_events(3) [OF constructed(2) refl] p(2)
    by (simp add: c(2) checked_failures_append)
  moreover have "\<exists>rc ra. cityReader i' = Some rc \<and> asnReader i' = Some ra \<and> rid rc \<noteq> rid ra \<and>
               rid rc \<in> open_readers w2 \<and> rid ra \<in> open_readers w2"
    using ensureDatabases_handles(1) [OF constructed(2)] by auto
  ultimately show ?thesis
    by (simp add: eq)
qed

lemma Reader_City_events:
  "trace (snd (Reader_City e ro a w)) = trace w @ new_events w (snd (Reader_City e ro a w))"
  "fst (Reader_City e ro a w) = Inr c \<Longrightarrow> failures (new_events w (snd (Reader_City e ro a w))) = []"
  "fst (Reader_City e ro a w) = Inl (Error m) \<Longrightarrow>
     failures (new_events w (snd (Reader_City e ro a w))) = [m] \<and>
     checked_failures (new_events w (snd (Reader_City e ro a w))) = [m]"
  by (auto simp: Reader_City_def log_event_def new_events_def checked_failures_simps
      split: option.splits sum.splits)

lemma Reader_ASN_events:
  "trace (snd (Reader_ASN e ro a w)) = trace w @ new_events w (snd (Reader_ASN e ro a w))"
  "fst (Reader_ASN e ro a w) = Inr c \<Longrightarrow> failures (new_events w (snd (Reader_ASN e ro a w))) = []"
  "fst (Reader_ASN e ro a w) = Inl (Error m) \<Longrightarrow>
     failures (new_events w (snd (Reader_ASN e ro a w))) = [m] \<and>
     checked_failures (new_events w (snd (Reader_ASN e ro a w))) = [m]"
  by (auto simp: Reader_ASN_def log_event_def new_events_def checked_failures_simps
      split: option.splits sum.splits)

lemma failures_Nil_checked: "failures evs = [] \<Longrightarrow> checked_failures evs = []"
  by (induction evs rule: failures.induct) (simp_all add: checked_failures_simps)

lemma GetIPInfo_summary:
  "(\<forall>d. fst (GetIPInfo e i s w) = Inr d \<longrightarrow>
      failures (new_events w (snd (GetIPInfo e i s w))) = [])
   \<and> (\<forall>err. fst (GetIPInfo e i s w) = Inl (Error err) \<longrightarrow>
        carries_cause err (new_events w (snd (GetIPInfo e i s w))) \<or>
        ParseIP e s = None \<and> err = ''invalid IP address'' \<and>
        new_events w (snd (GetIPInfo e i s w)) = [])"
proof (cases "ParseIP e s")
  case None
  then show ?thesis
    by (simp add: GetIPInfo_def new_events_self)
next
  case (Some a)
  obtain rc w1 where rc: "Reader_City e (cityReader i) a w = (rc, w1)"
    by (cases "Reader_City e (cityReader i) a w")
  obtain ra w2 where ra: "Reader_ASN e (asnReader i) a w1 = (ra, w2)"
    by (cases "Reader_ASN e (asnReader i) a w1")
  note ec = Reader_City_events(1-3) [of e "cityReader i" a w, unfolded rc fst_conv snd_conv]
  note ea = Reader_ASN_events(1-3) [of e "asnReader i" a w1, unfolded ra fst_conv snd_conv]
  note c = new_events_compose [OF ec(1) ea(1)]
  show ?thesis
  proof (cases rc)
    case (Inl f)
    show ?thesis
    proof (cases f)
      case (Error m)
      have "carries_cause (''failed to query city information: '' @ m) (new_events w w1)"
        unfolding carries_cause_def using ec(3) [of m] Inl Error by (metis suffix_wrap)
      then show ?thesis
        by (simp add: GetIPInfo_def Some rc Inl Error)
    next
      case Fault
      then show ?thesis
        by (simp add: GetIPInfo_def Some rc Inl)
    qed
  next
    case (Inr city)
    note city = this
    have f1: "failures (new_events w w1) = []"
      using ec(2) [of city] Inr by simp
    show ?thesis
    proof (cases ra)
      case (Inl f)
      show ?thesis
      proof (cases f)
        case (Error m)
        have "carries_cause (''failed to query ASN information: '' @ m) (new_events w1 w2)"
          unfolding carries_cause_def using ea(3) [of m] Inl Error by (metis suffix_wrap)
        then have "carries_cause (''failed to query ASN information: '' @ m) (new_events w w2)"
          using failures_Nil_checked [OF f1] by (simp add: c(2) carries_cause_prepend)
        then show ?thesis
          by (simp add: GetIPInfo_def Some rc ra city Inl Error)
      next
        case Fault
        then show ?thesis
          by (simp add: GetIPInfo_def Some rc ra city Inl)
      qed
    next
      case (Inr asn)
      have "failures (new_events w w2) = []"
        using ea(2) [of asn] Inr f1 by (simp add: c(2) failures_append)
      then show ?thesis
        by (simp add: GetIPInfo_def Some rc ra city Inr Let_def)
    qed
  qed
qed

subsection \<open>Runs in the concrete environment\<close>

lemmas model_defs =
  NewIPInfo_def ensureDatabases_def downloadFile_def geoip2_Open_def Reader_Close_def
  os_Stat_def os_IsNotExist_def log_event_def new_events_def Let_def
  filepath_Join_def filepath_Clean_def clean_step_def checked_failures_def
  GetIPInfo_def Reader_City_def Reader_ASN_def getLocalizedName_def

lemmas ex_defs =
  ex_env_def ex_env_203_def ex_env_404_def ex_env_offline_def ex_env_no_asn_def ex_env_bare_def
  ex_env_stat_denied_def ex_env_close_fails_def
  ex_response_def ex_response_203_def ex_response_404_def
  ex_world_def ex_world_open_def ex_world_asn_only_def ex_world_city_only_def ex_world_bad_asn_def
  ex_world_custom_city_def ex_world_custom_asn_def
  ex_info_def ex_info_nil_def ex_info_swapped_def ex_city_def ex_asn_def ex_addr_def ex_details_def


lemma ex_run_new:
  "fst (NewIPInfo ex_env ''/db'' ex_world) =
     Inr \<lparr>cityReader = Some \<lparr>rid = 0, rdata = ''MMDBdata''\<rparr>,
          asnReader = Some \<lparr>rid = 1, rdata = ''MMDBdata''\<rparr>, dbDir = ''/db''\<rparr>"
  "open_readers (snd (NewIPInfo ex_env ''/db'' ex_world)) = {0, 1}"
  "failures (new_events ex_world (snd (NewIPInfo ex_env ''/db'' ex_world))) =
     [''stat /db/GeoLite2-City.mmdb: no such file or directory'',
      ''stat /db/GeoLite2-ASN.mmdb: no such file or directory'']"
  "fetches (new_events ex_world (snd (NewIPInfo ex_env ''/db'' ex_world))) = [cityDBURL, asnDBURL]"
  by (simp_all add: model_defs ex_defs insert_commute)

lemma ex_run_404:
  "fst (NewIPInfo ex_env_404 ''/db'' ex_world) =
     Inl ''failed to download city database: bad status: 404 Not Found''"
  "open_readers (snd (NewIPInfo ex_env_404 ''/db'' ex_world)) = {}"
  "checked_failures (new_events ex_world (snd (NewIPInfo ex_env_404 ''/db'' ex_world))) = []"
  by (simp_all add: model_defs ex_defs)

lemma ex_run_offline:
  "fst (NewIPInfo ex_env_offline ''/db'' ex_world) =
     Inl ''failed to download city database: dial tcp: no such host''"
  "checked_failures (new_events ex_world (snd (NewIPInfo ex_env_offline ''/db'' ex_world))) =
     [''dial tcp: no such host'']"
  by (simp_all add: model_defs ex_defs)

lemma ex_run_no_asn:
  "fst (GetIPInfo ex_env_no_asn ex_info ''192.0.2.1'' ex_world_open) =
     Inl (Error ''failed to query ASN information: address not found'')"
  "failures (new_events ex_world_open
     (snd (GetIPInfo ex_env_no_asn ex_info ''192.0.2.1'' ex_world_open))) = [''address not found'']"
  by (simp_all add: model_defs ex_defs)

lemma ex_run_close_fails:
  "fst (NewIPInfo ex_env_close_fails ''/db'' ex_world) =
     Inr \<lparr>cityReader = Some \<lparr>rid = 0, rdata = ''MMDBdata''\<rparr>,
          asnReader = Some \<lparr>rid = 1, rdata = ''MMDBdata''\<rparr>, dbDir = ''/db''\<rparr>"
  "failures (new_events ex_world (snd (NewIPInfo ex_env_close_fails ''/db'' ex_world))) =
     [''stat /db/GeoLite2-City.mmdb: no such file or directory'',
      ''close: input/output error'',
      ''stat /db/GeoLite2-ASN.mmdb: no such file or directory'',
      ''close: input/output error'']"
  by (simp_all add: model_defs ex_defs)



lemma ex_run_bad_asn:
  "fst (ensureDatabases ex_env ex_info_nil ex_world_bad_asn) =
     Some ''failed to open ASN database: invalid MaxMind DB file''"
  "asnReader (fst (snd (ensureDatabases ex_env ex_info_nil ex_world_bad_asn))) = None"
  "closes (new_events ex_world_bad_asn
     (snd (snd (ensureDatabases ex_env ex_info_nil ex_world_bad_asn)))) = [0]"
  "open_readers (snd (snd (ensureDatabases ex_env ex_info_nil ex_world_bad_asn))) = {}"
  by (simp_all add: model_defs ex_defs)


subsection \<open>Provisioning, construction and errors: the results\<close>




text \<open>
  C2: construction is meant to be all or nothing, and it is not.  \<open>geoip2.Open\<close> returns
  an open reader together with its error for a database of a type it does not know.  With such
  a city file \<open>ensureDatabases\<close> and \<open>NewIPInfo\<close> fail and nothing closes the reader:
  its handle stays open.  With such an ASN file the city reader is closed, as the code
  intends, and the ASN reader stays open.  (Lemma \<open>ensureDatabases_handles\<close> has what does
  hold: both readers open on success, the city reader closed when the ASN open fails.)
\<close>

theorem construction_leaks_reader_returned_with_error:
  "fst (ensureDatabases ex_env ex_info_nil ex_world_custom_city) =
     Some ''failed to open city database: geoip2: reader does not support the database type'' \<and>
   cityReader (fst (snd (ensureDatabases ex_env ex_info_nil ex_world_custom_city))) =
     Some \<lparr>rid = 0, rdata = ''MMDBcustom''\<rparr> \<and>
   closes (new_events ex_world_custom_city
     (snd (snd (ensureDatabases ex_env ex_info_nil ex_world_custom_city)))) = [] \<and>
   open_readers (snd (snd (ensureDatabases ex_env ex_info_nil ex_world_custom_city))) = {0} \<and>
   fst (NewIPInfo ex_env ''/db'' ex_world_custom_city) =
     Inl ''failed to open city database: geoip2: reader does not support the database type'' \<and>
   open_readers (snd (NewIPInfo ex_env ''/db'' ex_world_custom_city)) = {0} \<and>
   fst (ensureDatabases ex_env ex_info_nil ex_world_custom_asn) =
     Some ''failed to open ASN database: geoip2: reader does not support the database type'' \<and>
   asnReader (fst (snd (ensureDatabases ex_env ex_info_nil ex_world_custom_asn))) =
     Some \<lparr>rid = 1, rdata = ''MMDBcustom''\<rparr> \<and>
   closes (new_events ex_world_custom_asn
     (snd (snd (ensureDatabases ex_env ex_info_nil ex_world_custom_asn)))) = [0] \<and>
   open_readers (snd (snd (ensureDatabases ex_env ex_info_nil ex_world_custom_asn))) = {1}"
  by (auto simp: model_defs ex_defs)

text \<open>
  C8 (as amended): every error returned by \<open>NewIPInfo\<close> or \<open>GetIPInfo\<close> other than
  "invalid IP address" ends with the message of the one checked call that failed, or, for a
  bad HTTP status, with the status line of the response; "invalid IP address" is a fixed
  message returned when the string does not parse, with no failed call behind it.  A call
  that succeeds has seen no failure of a checked call; the errors of \<open>os.Stat\<close> and of
  the \<open>Close\<close> calls are not returned.
\<close>

theorem errors_carry_cause:
  "(fst (NewIPInfo e dir w) = Inl err \<longrightarrow>
      carries_cause err (new_events w (snd (NewIPInfo e dir w))) \<or>
      reports_status e err (new_events w (snd (NewIPInfo e dir w))))
   \<and> (fst (NewIPInfo e dir w) = Inr i' \<longrightarrow>
      checked_failures (new_events w (snd (NewIPInfo e dir w))) = [])
   \<and> (fst (GetIPInfo e i s w) = Inl (Error err) \<longrightarrow>
      carries_cause err (new_events w (snd (GetIPInfo e i s w))) \<or>
      ParseIP e s = None \<and> err = ''invalid IP address'' \<and>
      new_events w (snd (GetIPInfo e i s w)) = [])
   \<and> (fst (GetIPInfo e i s w) = Inr d \<longrightarrow>
      failures (new_events w (snd (GetIPInfo e i s w))) = [])"
  using NewIPInfo_summary [of e dir w "fst (NewIPInfo e dir w)" "snd (NewIPInfo e dir w)"]
    GetIPInfo_summary [of e i s w]
  by simp

theorem errors_carry_cause_witness:
  "fst (NewIPInfo ex_env_offline ''/db'' ex_world) =
     Inl ''failed to download city database: dial tcp: no such host'' \<and>
   carries_cause ''failed to download city database: dial tcp: no such host''
     (new_events ex_world (snd (NewIPInfo ex_env_offline ''/db'' ex_world))) \<and>
   fst (NewIPInfo ex_env_404 ''/db'' ex_world) =
     Inl ''failed to download city database: bad status: 404 Not Found'' \<and>
   reports_status ex_env_404 ''failed to download city database: bad status: 404 Not Found''
     (new_events ex_world (snd (NewIPInfo ex_env_404 ''/db'' ex_world))) \<and>
   (\<exists>i2. fst (NewIPInfo ex_env ''/db'' ex_world) = Inr i2) \<and>
   checked_failures (new_events ex_world (snd (NewIPInfo ex_env ''/db'' ex_world))) = [] \<and>
   fst (GetIPInfo ex_env_no_asn ex_info ''192.0.2.1'' ex_world_open) =
     Inl (Error ''failed to query ASN information: address not found'') \<and>
   carries_cause ''failed to query ASN information: address not found''
     (new_events ex_world_open (snd (GetIPInfo ex_env_no_asn ex_info ''192.0.2.1'' ex_world_open))) \<and>
   fst (GetIPInfo ex_env ex_info ''192.0.2.1'' ex_world_open) = Inr ex_details \<and>
   failures (new_events ex_world_open (snd (GetIPInfo ex_env ex_info ''192.0.2.1'' ex_world_open))) = []"
proof -
  have a: "carries_cause ''failed to download city database: dial tcp: no such host''
     (new_events ex_world (snd (NewIPInfo ex_env_offline ''/db'' ex_world)))"
    using errors_carry_cause [of ex_env_offline "''/db''" ex_world
        "''failed to download city database: dial tcp: no such host''"]
      ex_run_offline
    by (simp add: reports_status_def)
  have b: "reports_status ex_env_404 ''failed to download city database: bad status: 404 Not Found''
     (new_events ex_world (snd (NewIPInfo ex_env_404 ''/db'' ex_world)))"
    using errors_carry_cause [of ex_env_404 "''/db''" ex_world
        "''failed to download city database: bad status: 404 Not Found''"]
      ex_run_404
    by (simp add: carries_cause_def)
  have c: "checked_failures (new_events ex_world (snd (NewIPInfo ex_env ''/db'' ex_world))) = []"
    using errors_carry_cause [of ex_env "''/db''" ex_world] ex_run_new(1)
    by simp
  have d: "carries_cause ''failed to query ASN information: address not found''
     (new_events ex_world_open (snd (GetIPInfo ex_env_no_asn ex_info ''192.0.2.1'' ex_world_open)))"
    using errors_carry_cause [where e = ex_env_no_asn and i = ex_info and s = "''192.0.2.1''"
        and w = ex_world_open and err = "''failed to query ASN information: address not found''"]
      ex_run_no_asn(1)
    by (simp add: ex_env_no_asn_def ex_env_def)
  have e: "failures (new_events ex_world_open
      (snd (GetIPInfo ex_env ex_info ''192.0.2.1'' ex_world_open))) = []"
    using errors_carry_cause [where e = ex_env and i = ex_info and s = "''192.0.2.1''"
        and w = ex_world_open and d = ex_details]
      GetIPInfo_example
    by simp
  show ?thesis
    using a b c d e ex_run_offline(1) ex_run_404(1) ex_run_new(1) ex_run_no_asn(1)
      GetIPInfo_example
    by simp
qed

text \<open>
  C8 as stated fails twice.  The invalid-address error is listed among the errors that
  carry an underlying cause and carries none: no external call has failed when it is
  returned.  And errors are swallowed: when closing the downloaded file fails,
  \<open>NewIPInfo\<close> still returns a resolver and no error.
\<close>

theorem errors_without_cause_and_errors_dropped:
  "fst (GetIPInfo ex_env ex_info ''256.1.1.1'' ex_world_open) = Inl (Error ''invalid IP address'') \<and>
   failures (new_events ex_world_open
     (snd (GetIPInfo ex_env ex_info ''256.1.1.1'' ex_world_open))) = [] \<and>
   \<not> carries_cause ''invalid IP address''
     (new_events ex_world_open (snd (GetIPInfo ex_env ex_info ''256.1.1.1'' ex_world_open))) \<and>
   fst (NewIPInfo ex_env_close_fails ''/db'' ex_world) =
     Inr \<lparr>cityReader = Some \<lparr>rid = 0, rdata = ''MMDBdata''\<rparr>,
          asnReader = Some \<lparr>rid = 1, rdata = ''MMDBdata''\<rparr>, dbDir = ''/db''\<rparr> \<and>
   FileClose_err ex_env_close_fails ''/db/GeoLite2-City.mmdb'' = Some ''close: input/output error'' \<and>
   ''close: input/output error'' \<in>
     set (failures (new_events ex_world (snd (NewIPInfo ex_env_close_fails ''/db'' ex_world))))"
  by (simp add: ex_run_close_fails)
     (simp add: GetIPInfo_def ex_env_def ex_env_close_fails_def new_events_self carries_cause_def
        checked_failures_def)

end
